theory Spec2Isabelle
  imports Main
begin

section \<open>Python strings\<close>

text \<open>
  A Python \<open>str\<close> is modelled as a \<open>string\<close> with one \<open>char\<close> per code point, so the
  model covers texts whose code points are all below 256. \<open>length\<close> is Python's \<open>len\<close>,
  \<open>take 50 s\<close> is \<open>s[:50]\<close>.
\<close>

definition py_isspace :: "char \<Rightarrow> bool" where
  \<comment> \<open>\<open>str.isspace\<close> on one code point below 256; also the class \<open>\s\<close> of \<open>re\<close> on \<open>str\<close>\<close>
  "py_isspace c = (c \<in> set [CHR 0x09, CHR 0x0A, CHR 0x0B, CHR 0x0C, CHR 0x0D,
      CHR 0x1C, CHR 0x1D, CHR 0x1E, CHR 0x1F, CHR 0x20, CHR 0x85, CHR 0xA0])"

definition upper_chars :: "string" where
  "upper_chars = ''ABCDEFGHIJKLMNOPQRSTUVWXYZ'' @
     [CHR 0xC0, CHR 0xC1, CHR 0xC2, CHR 0xC3, CHR 0xC4, CHR 0xC5, CHR 0xC6, CHR 0xC7,
      CHR 0xC8, CHR 0xC9, CHR 0xCA, CHR 0xCB, CHR 0xCC, CHR 0xCD, CHR 0xCE, CHR 0xCF,
      CHR 0xD0, CHR 0xD1, CHR 0xD2, CHR 0xD3, CHR 0xD4, CHR 0xD5, CHR 0xD6,
      CHR 0xD8, CHR 0xD9, CHR 0xDA, CHR 0xDB, CHR 0xDC, CHR 0xDD, CHR 0xDE]"

definition lower_chars :: "string" where
  "lower_chars = ''abcdefghijklmnopqrstuvwxyz'' @
     [CHR 0xE0, CHR 0xE1, CHR 0xE2, CHR 0xE3, CHR 0xE4, CHR 0xE5, CHR 0xE6, CHR 0xE7,
      CHR 0xE8, CHR 0xE9, CHR 0xEA, CHR 0xEB, CHR 0xEC, CHR 0xED, CHR 0xEE, CHR 0xEF,
      CHR 0xF0, CHR 0xF1, CHR 0xF2, CHR 0xF3, CHR 0xF4, CHR 0xF5, CHR 0xF6,
      CHR 0xF8, CHR 0xF9, CHR 0xFA, CHR 0xFB, CHR 0xFC, CHR 0xFD, CHR 0xFE]"

definition lower_char :: "char \<Rightarrow> char" where
  "lower_char c = (case map_of (zip upper_chars lower_chars) c of Some d \<Rightarrow> d | None \<Rightarrow> c)"

definition lower :: "string \<Rightarrow> string" where
  \<comment> \<open>\<open>s.lower()\<close>\<close>
  "lower s = map lower_char s"

definition strip :: "string \<Rightarrow> string" where
  \<comment> \<open>\<open>s.strip()\<close>\<close>
  "strip s = rev (dropWhile py_isspace (rev (dropWhile py_isspace s)))"

fun split_acc :: "string \<Rightarrow> string \<Rightarrow> string list" where
  "split_acc [] w = (if w = [] then [] else [rev w])"
| "split_acc (c # cs) w =
     (if py_isspace c then (if w = [] then split_acc cs [] else rev w # split_acc cs [])
      else split_acc cs (c # w))"

definition py_split :: "string \<Rightarrow> string list" where
  \<comment> \<open>\<open>s.split()\<close>: the maximal runs of non-whitespace\<close>
  "py_split s = split_acc s []"

fun startswith :: "string \<Rightarrow> string \<Rightarrow> bool" where
  "startswith s [] = True"
| "startswith [] (p # ps) = False"
| "startswith (c # cs) (p # ps) = (c = p \<and> startswith cs ps)"

fun contains :: "string \<Rightarrow> string \<Rightarrow> bool" where
  \<comment> \<open>\<open>contains s p\<close> is Python's \<open>p in s\<close>\<close>
  "contains [] p = (p = [])"
| "contains (c # cs) p = (startswith (c # cs) p \<or> contains cs p)"

section \<open>Exceptions and the skill files\<close>

datatype exn =
    FileNotFoundError
  | JSONDecodeError
  | TypeError
  | ValidationError
  | GeneratorError string

type_synonym skills = "string \<Rightarrow> string option"

definition load_skill :: "skills \<Rightarrow> string \<Rightarrow> exn + string" where
  \<comment> \<open>The skills directory maps a skill name to the text of its file; the loader object
      kept in a module variable holds the directory path only.\<close>
  "load_skill skills skill_name =
     (case skills skill_name of None \<Rightarrow> Inl FileNotFoundError | Some text \<Rightarrow> Inr text)"

section \<open>Data model\<close>

text \<open>
  Modelled from the spec: \<open>src3/models.py\<close> is not among the sources. The records follow
  section 3 of the specification, which agrees with \<open>src2/models.py\<close>. The extracted and
  the validated fact share their first four fields, written once as the record \<open>Fact\<close>;
  the field \<open>context\<close> of the source is \<open>fact_context\<close> here.
\<close>

record Fact =
  fact_type :: string
  content :: string
  source_quote :: string
  confidence :: string

record ExtractedFact = Fact +
  fact_context :: "string option"

record ValidatedFact = Fact +
  is_valid :: bool
  validation_notes :: "string option"

record ExtractedFacts =
  decisions :: "ExtractedFact list"
  action_items :: "ExtractedFact list"
  open_questions :: "ExtractedFact list"
  deadlines :: "ExtractedFact list"
  metrics :: "ExtractedFact list"

record ValidatedFacts =
  facts :: "ValidatedFact list"
  discarded_count :: nat
  discarded_reasons :: "string list"

section \<open>The fact validator of \<open>src3\<close>\<close>

definition conditional_patterns :: "string list" where
  "conditional_patterns =
     ['' if it fails'', '' if the test fails'', '' if needed'', '' might have to'',
      '' may need to'', '' could be'', '' would be'', '' should consider'']"

definition commitment_words :: "string list" where
  "commitment_words =
     [''will'', ''going to'', ''please'', ''let'' @ [CHR 0x27] @ ''s'', [CHR 0x27] @ ''ll'',
      ''send'', ''run'', ''schedule'', ''reach out'', ''set up'', ''ensure'', ''upload'']"

definition vague_only_phrases :: "string list" where
  "vague_only_phrases = [''follow up'', ''look into'', ''think about'', ''work on'', ''check on'']"

definition has_conditional :: "string \<Rightarrow> string \<Rightarrow> bool" where
  \<comment> \<open>whether the loop over \<open>conditional_patterns\<close> returns, given the lowered content and
      the lowered source quote\<close>
  "has_conditional content_l source =
     list_ex (\<lambda>pattern. contains content_l pattern \<or> contains source pattern)
       conditional_patterns"

definition has_commitment :: "string \<Rightarrow> bool" where
  \<comment> \<open>the variable \<open>has_commitment\<close>, given the lowered source quote\<close>
  "has_commitment source = list_ex (\<lambda>word. contains source word) commitment_words"

definition is_vague :: "string \<Rightarrow> bool" where
  \<comment> \<open>whether the loop over \<open>vague_only_phrases\<close> returns, given the lowered content\<close>
  "is_vague content_l =
     list_ex (\<lambda>phrase. strip content_l = phrase
                \<or> (contains content_l phrase \<and> length content_l < 20)) vague_only_phrases"

definition validate_single_fact :: "ExtractedFact \<Rightarrow> bool \<times> string option" where
  "validate_single_fact f =
     (let content_l = lower (content f);
          source = lower (source_quote f)
      in if source_quote f = [] \<or> length (source_quote f) < 5
         then (False, Some (''Missing source quote: '' @ take 50 (content f)))
         else if has_conditional content_l source
         then (False, Some (''Conditional statement: '' @ take 50 (content f)))
         else if fact_type f = ''action_item'' \<and> \<not> has_commitment source
         then (False, Some (''No clear commitment: '' @ take 50 (content f)))
         else if is_vague content_l
         then (False, Some (''Too vague: '' @ take 50 (content f)))
         else if confidence f = ''low''
         then (False, Some (''Low confidence: '' @ take 50 (content f)))
         else (True, None))"

definition to_validated :: "ExtractedFact \<Rightarrow> ValidatedFact" where
  "to_validated f =
     \<lparr>fact_type = fact_type f, content = content f, source_quote = source_quote f,
      confidence = confidence f, is_valid = True, validation_notes = None\<rparr>"

fun validate_loop ::
  "ExtractedFact list \<Rightarrow> ValidatedFact list \<Rightarrow> ExtractedFact list \<Rightarrow> string option list
     \<Rightarrow> ValidatedFact list \<times> ExtractedFact list \<times> string option list" where
  "validate_loop [] validated discarded reasons = (validated, discarded, reasons)"
| "validate_loop (f # rest) validated discarded reasons =
     (case validate_single_fact f of
        (valid, reason) \<Rightarrow>
          if valid then validate_loop rest (validated @ [to_validated f]) discarded reasons
          else validate_loop rest validated (discarded @ [f]) (reasons @ [reason]))"

definition all_facts :: "ExtractedFacts \<Rightarrow> ExtractedFact list" where
  "all_facts extracted =
     decisions extracted @ action_items extracted @ deadlines extracted @ metrics extracted"

definition validate_facts :: "skills \<Rightarrow> ExtractedFacts \<Rightarrow> exn + ValidatedFacts" where
  \<comment> \<open>The node reads the key \<open>extracted_facts\<close> of the pipeline state and returns the state
      with the key \<open>validated_facts\<close> added; the model takes the one and returns the other.
      \<open>discarded_reasons\<close> is declared a list of \<open>str\<close>, so a \<open>None\<close> among the reasons
      would be refused when the result is built.\<close>
  "validate_facts skills extracted =
     (case load_skill skills ''VALIDATE_FACTS'' of
        Inl e \<Rightarrow> Inl e
      | Inr skill \<Rightarrow>
          (case validate_loop (all_facts extracted) [] [] [] of
             (validated, discarded, reasons) \<Rightarrow>
               if list_all (\<lambda>r. r \<noteq> None) reasons
               then Inr \<lparr>facts = validated, discarded_count = length discarded,
                         discarded_reasons = map the reasons\<rparr>
               else Inl ValidationError))"

section \<open>The fact validator of \<open>src2\<close>\<close>

definition generic_phrases :: "string list" where
  "generic_phrases = [''discuss'', ''talk about'', ''look into'', ''follow up'']"

definition commitment_words_src2 :: "string list" where
  "commitment_words_src2 =
     [''will'', ''going to'', ''need to'', ''must'', ''should'', ''please'', ''send me'']"

definition imperative_verbs :: "string list" where
  "imperative_verbs =
     [''send'', ''run'', ''reach'', ''ensure'', ''schedule'', ''set up'', ''get'', ''provide'']"

definition to_validated_src2 :: "ExtractedFact \<Rightarrow> ValidatedFact" where
  "to_validated_src2 f =
     \<lparr>fact_type = fact_type f, content = content f, source_quote = source_quote f,
      confidence = confidence f, is_valid = True,
      validation_notes = Some ''Passed all validation rules''\<rparr>"

definition has_commitment_src2 :: "string \<Rightarrow> bool" where
  \<comment> \<open>the two nested tests of rule 4 on the lowered source quote: a commitment word, or
      else an imperative verb\<close>
  "has_commitment_src2 source_lower =
     (list_ex (\<lambda>word. contains source_lower word) commitment_words_src2
      \<or> list_ex (\<lambda>verb. contains source_lower verb) imperative_verbs)"

definition is_generic :: "ExtractedFact \<Rightarrow> bool" where
  "is_generic f = list_ex (\<lambda>phrase. contains (lower (content f)) phrase) generic_phrases"

definition rejection_src2 :: "ExtractedFact \<Rightarrow> string option" where
  \<comment> \<open>The body of the loop up to its first \<open>continue\<close>: the reason appended to
      \<open>discarded\<close>, or \<open>None\<close> when the fact reaches the end of the body.\<close>
  "rejection_src2 f =
     (if confidence f = ''low'' \<and> fact_type f \<in> set [''decision'', ''action_item'']
      then Some (''Low confidence '' @ fact_type f @ '': '' @ take 50 (content f))
      else if length (py_split (source_quote f)) < 3
      then Some (''Vague source quote: '' @ take 50 (content f))
      else if is_generic f \<and> confidence f \<noteq> ''high''
      then Some (''Generic content: '' @ take 50 (content f))
      else if fact_type f = ''action_item''
              \<and> \<not> has_commitment_src2 (lower (source_quote f))
      then Some (''No clear commitment: '' @ take 50 (content f))
      else None)"

fun validate_loop_src2 ::
  "ExtractedFact list \<Rightarrow> ValidatedFact list \<Rightarrow> string list
     \<Rightarrow> ValidatedFact list \<times> string list" where
  "validate_loop_src2 [] validated_list discarded = (validated_list, discarded)"
| "validate_loop_src2 (f # rest) validated_list discarded =
     (case rejection_src2 f of
        Some reason \<Rightarrow> validate_loop_src2 rest validated_list (discarded @ [reason])
      | None \<Rightarrow> validate_loop_src2 rest (validated_list @ [to_validated_src2 f]) discarded)"

definition all_facts_src2 :: "ExtractedFacts \<Rightarrow> ExtractedFact list" where
  "all_facts_src2 extracted =
     decisions extracted @ action_items extracted @ open_questions extracted
       @ deadlines extracted @ metrics extracted"

definition validate_facts_src2 :: "ExtractedFacts \<Rightarrow> ValidatedFacts" where
  "validate_facts_src2 extracted =
     (case validate_loop_src2 (all_facts_src2 extracted) [] [] of
        (validated_list, discarded) \<Rightarrow>
          \<lparr>facts = validated_list, discarded_count = length discarded,
           discarded_reasons = discarded\<rparr>)"

section \<open>Output artifacts\<close>

text \<open>
  Modelled from the spec: the output classes of \<open>src3/models.py\<close>, after section 3 of the
  specification and \<open>src2/models.py\<close>. The field \<open>source_facts\<close>, common to the three
  artifacts, and \<open>priority\<close>, common to two, are written once in base records.
\<close>

record Sourced =
  source_facts :: "string list"

record Prioritized = Sourced +
  priority :: string

record ActionPoint = Prioritized +
  description :: string

record ToDo = Prioritized +
  task :: string
  deadline :: "string option"

record FollowUpEmail = Sourced +
  subject :: string
  body :: string

record MeetingOutputs =
  summary :: string
  action_points :: "ActionPoint list"
  todos :: "ToDo list"
  follow_up_emails :: "FollowUpEmail list"
  total_facts_extracted :: nat
  total_facts_validated :: nat
  facts_discarded :: nat

definition truthy :: "string option \<Rightarrow> bool" where
  \<comment> \<open>the truth value Python gives an optional string: \<open>None\<close> and \<open>""\<close> are false\<close>
  "truthy x = (case x of None \<Rightarrow> False | Some s \<Rightarrow> s \<noteq> [])"

section \<open>The repair step of the to-do generator\<close>

definition absent_sentinels :: "string list" where
  "absent_sentinels = [''not specified'', ''none'', ''n/a'', ''tbd'', ''null'']"

definition task_verbs :: "string list" where
  "task_verbs = [''run'', ''send'', ''schedule'', ''reach'', ''upload'', ''complete'', ''review'']"

definition without_deadline :: "ToDo \<Rightarrow> ToDo" where
  \<comment> \<open>\<open>ToDo(task=todo.task, deadline=None, priority=todo.priority,
      source_facts=todo.source_facts)\<close>\<close>
  "without_deadline todo =
     \<lparr>source_facts = source_facts todo, priority = priority todo, task = task todo,
      deadline = None\<rparr>"

definition fix_sentinel :: "ToDo \<Rightarrow> ToDo" where
  \<comment> \<open>the first \<open>if\<close> of the loop body\<close>
  "fix_sentinel todo =
     (if truthy (deadline todo) \<and> lower (the (deadline todo)) \<in> set absent_sentinels
      then without_deadline todo else todo)"

definition fix_task_like :: "ToDo \<Rightarrow> ToDo" where
  \<comment> \<open>the second \<open>if\<close> of the loop body\<close>
  "fix_task_like todo =
     (if truthy (deadline todo)
      then (if list_ex (\<lambda>verb. contains (lower (the (deadline todo))) verb) task_verbs
            then without_deadline todo else todo)
      else todo)"

fun fix_common_issues :: "ToDo list \<Rightarrow> ToDo list" where
  "fix_common_issues [] = []"
| "fix_common_issues (todo # rest) = fix_task_like (fix_sentinel todo) # fix_common_issues rest"

definition py_isdigit :: "string \<Rightarrow> bool" where
  \<comment> \<open>\<open>s.isdigit()\<close>; below 256 the digits are \<open>0\<close> to \<open>9\<close> and the superscripts
      one, two and three\<close>
  "py_isdigit s = (s \<noteq> [] \<and> list_all (\<lambda>c. c \<in> set (''0123456789'' @ [CHR 0xB2, CHR 0xB3, CHR 0xB9])) s)"

definition validate_todos :: "ToDo list \<Rightarrow> string list" where
  "validate_todos tds =
     (let tasks = map (\<lambda>td. strip (lower (task td))) tds
      in (if \<not> distinct tasks then [''Contains duplicate todos - remove duplicates''] else [])
         @ concat (map (\<lambda>td.
              if list_ex (\<lambda>word. contains (lower (task td)) word) ['' if '', '' might '', '' may '']
              then [''Contains conditional: '' @ [CHR 0x27] @ task td @ [CHR 0x27]
                      @ '' - remove conditionals'']
              else []) tds)
         @ concat (map (\<lambda>td. concat (map (\<lambda>sf.
              if py_isdigit sf \<or> sf \<in> set [''1'', ''2'', ''3'', ''4'', ''5'']
              then [''source_facts contains index '' @ [CHR 0x27] @ sf @ [CHR 0x27]
                      @ '' - use actual fact text'']
              else []) (source_facts td))) tds))"

section \<open>The compliance check of \<open>src3\<close>\<close>

definition compliance_check ::
  "MeetingOutputs option \<Rightarrow> ValidatedFacts option \<Rightarrow> bool \<times> string list" where
  \<comment> \<open>The arguments are \<open>state.get("outputs")\<close> and \<open>state.get("validated_facts")\<close>; the
      result is the pair stored under \<open>compliance_passed\<close> and \<open>compliance_issues\<close>.
      An object of either class is true in a condition.\<close>
  "compliance_check outputs validated =
     (case (outputs, validated) of
        (Some out, Some v) \<Rightarrow>
          (let issues =
                 concat (map (\<lambda>ap.
                    if source_facts ap = []
                    then [''Action point missing source_facts: '' @ take 50 (description ap)]
                    else []) (action_points out))
               @ concat (map (\<lambda>td.
                    (if source_facts td = []
                     then [''Todo missing source_facts: '' @ take 50 (task td)] else [])
                  @ (if truthy (deadline td)
                        \<and> lower (the (deadline td)) \<in> set [''not specified'', ''none'', ''n/a'']
                     then [''Todo has invalid deadline format: '' @ the (deadline td)] else []))
                    (todos out))
               @ concat (map (\<lambda>email.
                    if CHR ''['' \<in> set (body email) \<and> CHR '']'' \<in> set (body email)
                    then [''Email contains placeholders''] else [])
                    (follow_up_emails out))
           in (issues = [], issues))
      | _ \<Rightarrow> (False, [''Missing outputs or validated facts'']))"

section \<open>Splitting and the regular-expression substitutions\<close>

fun split_on :: "string \<Rightarrow> string \<Rightarrow> string \<Rightarrow> string list" where
  \<comment> \<open>\<open>split_on sep s []\<close> is \<open>s.split(sep)\<close> for a non-empty separator; the third
      argument holds the current part, reversed\<close>
  "split_on sep [] part = [rev part]"
| "split_on sep (c # cs) part =
     (if startswith (c # cs) sep then rev part # split_on sep (drop (length sep - 1) cs) []
      else split_on sep cs (c # part))"

definition fence :: string where
  "fence = [CHR 0x60, CHR 0x60, CHR 0x60]"

definition remove_markdown :: "string \<Rightarrow> string" where
  \<comment> \<open>the block under \<open># Remove markdown\<close>\<close>
  "remove_markdown text =
     (if contains text fence
      then (let parts = split_on fence text []
            in if 2 \<le> length parts
               then (let inner = parts ! 1
                     in if startswith inner ''json'' then drop 4 inner else inner)
               else text)
      else text)"

definition extract_array :: "string \<Rightarrow> string" where
  \<comment> \<open>the block under \<open># Extract array\<close>: from the first \<open>[\<close> on, then up to the last
      \<open>]\<close>\<close>
  "extract_array text =
     (let t1 = (if CHR ''['' \<in> set text then dropWhile (\<lambda>c. c \<noteq> CHR ''['') text else text)
      in if CHR '']'' \<in> set t1 then rev (dropWhile (\<lambda>c. c \<noteq> CHR '']'') (rev t1)) else t1)"

function strip_line_comments :: "string \<Rightarrow> string" where
  \<comment> \<open>\<open>re.sub(r'//.*?$', '', s, flags=re.MULTILINE)\<close>: every \<open>//\<close> goes with the rest
      of its line\<close>
  "strip_line_comments [] = []"
| "strip_line_comments (c # cs) =
     (if startswith (c # cs) ''//''
      then strip_line_comments (dropWhile (\<lambda>x. x \<noteq> CHR 0x0A) cs)
      else c # strip_line_comments cs)"
  by pat_completeness auto
termination
  by (relation "measure length") (auto simp add: length_dropWhile_le less_Suc_eq_le)

fun after_close :: "string \<Rightarrow> string option" where
  \<comment> \<open>what follows the first \<open>*/\<close>\<close>
  "after_close [] = None"
| "after_close (c # cs) = (if startswith (c # cs) ''*/'' then Some (drop 1 cs) else after_close cs)"

function strip_block_comments :: "string \<Rightarrow> string" where
  \<comment> \<open>\<open>re.sub(r'/\*.*?\*/', '', s, flags=re.DOTALL)\<close>: an opening \<open>/*\<close> goes with
      everything up to the nearest closing \<open>*/\<close>; without one it stays\<close>
  "strip_block_comments [] = []"
| "strip_block_comments (c # cs) =
     (if startswith (c # cs) ''/*''
      then (case after_close (drop 1 cs) of
              Some r \<Rightarrow> strip_block_comments r
            | None \<Rightarrow> c # strip_block_comments cs)
      else c # strip_block_comments cs)"
  by pat_completeness auto
termination
proof (relation "measure length")
  show "wf (measure length)" by simp
next
  fix c :: char and cs r :: string
  assume "after_close (drop 1 cs) = Some r"
  moreover have "after_close s = Some r \<Longrightarrow> length r < length s" for s
    by (induction s) (auto split: if_splits simp add: less_Suc_eq)
  ultimately have "length r < length (drop 1 cs)" by blast
  then show "(r, c # cs) \<in> measure length" by simp
qed simp_all

definition is_control :: "char \<Rightarrow> bool" where
  \<comment> \<open>the class \<open>[\x00-\x08\x0b-\x0c\x0e-\x1f\x7f-\x9f]\<close>\<close>
  "is_control c = (let n = (of_char c :: nat) in
     n \<le> 8 \<or> (11 \<le> n \<and> n \<le> 12) \<or> (14 \<le> n \<and> n \<le> 31) \<or> (127 \<le> n \<and> n \<le> 159))"

function fix_trailing_commas :: "string \<Rightarrow> string" where
  \<comment> \<open>\<open>re.sub(r',(\s*[}\]])', r'\1', s)\<close>: a comma followed by whitespace and a closing
      bracket is dropped\<close>
  "fix_trailing_commas [] = []"
| "fix_trailing_commas (c # cs) =
     (if c = CHR '',''
      then (case dropWhile py_isspace cs of
              [] \<Rightarrow> c # fix_trailing_commas cs
            | b # r \<Rightarrow>
                if b = CHR ''}'' \<or> b = CHR '']''
                then takeWhile py_isspace cs @ b # fix_trailing_commas r
                else c # fix_trailing_commas cs)
      else c # fix_trailing_commas cs)"
  by pat_completeness auto
termination
proof (relation "measure length")
  show "wf (measure length)" by simp
next
  fix c b :: char and cs r :: string
  assume "dropWhile py_isspace cs = b # r"
  then have "length (b # r) \<le> length cs"
    by (metis length_dropWhile_le)
  then show "(r, c # cs) \<in> measure length" by simp
qed simp_all

definition clean :: "string \<Rightarrow> string" where
  \<comment> \<open>the four substitutions under \<open># Clean\<close>, in their order\<close>
  "clean text =
     fix_trailing_commas (filter (\<lambda>c. \<not> is_control c)
       (strip_block_comments (strip_line_comments text)))"

section \<open>JSON values and \<open>json.loads\<close>\<close>

text \<open>
  A number keeps its literal; an object is the list of its pairs in insertion order, each
  key once, as a Python \<open>dict\<close>. An escape \<open>\u\<close> that denotes a code point from 256 on
  lies outside the model of strings and is refused.
\<close>

datatype json =
    JNull
  | JBool bool
  | JNum string
  | JStr string
  | JArr "json list"
  | JObj "(string \<times> json) list"

fun dict_set :: "(string \<times> 'v) list \<Rightarrow> string \<Rightarrow> 'v \<Rightarrow> (string \<times> 'v) list" where
  \<comment> \<open>\<open>d[k] = v\<close>\<close>
  "dict_set [] k v = [(k, v)]"
| "dict_set ((k', v') # kvs) k v =
     (if k' = k then (k', v) # kvs else (k', v') # dict_set kvs k v)"

definition dict_get :: "(string \<times> 'v) list \<Rightarrow> string \<Rightarrow> 'v \<Rightarrow> 'v" where
  \<comment> \<open>\<open>d.get(k, default)\<close>\<close>
  "dict_get kvs k dflt = (case map_of kvs k of Some v \<Rightarrow> v | None \<Rightarrow> dflt)"

definition json_ws :: "char \<Rightarrow> bool" where
  "json_ws c = (c \<in> set [CHR 0x20, CHR 0x09, CHR 0x0A, CHR 0x0D])"

definition skip_ws :: "string \<Rightarrow> string" where
  "skip_ws s = dropWhile json_ws s"

definition is_digit :: "char \<Rightarrow> bool" where
  "is_digit c = (c \<in> set ''0123456789'')"

definition hex_digit :: "char \<Rightarrow> nat option" where
  "hex_digit c = map_of (zip ''0123456789abcdefABCDEF''
     [0, 1, 2, 3, 4, 5, 6, 7, 8, 9, 10, 11, 12, 13, 14, 15, 10, 11, 12, 13, 14, 15]) c"

definition escape_char :: "char \<Rightarrow> char option" where
  "escape_char c = map_of
     [(CHR 0x22, CHR 0x22), (CHR 0x5C, CHR 0x5C), (CHR ''/'', CHR ''/''), (CHR ''b'', CHR 0x08),
      (CHR ''f'', CHR 0x0C), (CHR ''n'', CHR 0x0A), (CHR ''r'', CHR 0x0D), (CHR ''t'', CHR 0x09)] c"

definition unicode_escape :: "string \<Rightarrow> char option" where
  \<comment> \<open>the four hexadecimal digits after \<open>\u\<close>\<close>
  "unicode_escape hs =
     (case map hex_digit hs of
        [Some a, Some b, Some c, Some d] \<Rightarrow>
          (let n = ((a * 16 + b) * 16 + c) * 16 + d
           in if n < 256 then Some (char_of n) else None)
      | _ \<Rightarrow> None)"

function scanstring :: "string \<Rightarrow> string \<Rightarrow> (string \<times> string) option" where
  \<comment> \<open>the text after an opening quote, and the characters read so far, reversed; the
      result is the string and what follows its closing quote\<close>
  "scanstring [] acc = None"
| "scanstring (c # cs) acc =
     (if c = CHR 0x22 then Some (rev acc, cs)
      else if c = CHR 0x5C
      then (case cs of
              [] \<Rightarrow> None
            | e # r \<Rightarrow>
                if e = CHR ''u''
                then (case unicode_escape (take 4 r) of
                        Some x \<Rightarrow> scanstring (drop 4 r) (x # acc)
                      | None \<Rightarrow> None)
                else (case escape_char e of
                        Some x \<Rightarrow> scanstring r (x # acc)
                      | None \<Rightarrow> None))
      else if (of_char c :: nat) < 32 then None
      else scanstring cs (c # acc))"
  by pat_completeness auto
termination
  by (relation "measure (\<lambda>(s, acc). length s)") auto

definition scan_number :: "string \<Rightarrow> (string \<times> string) option" where
  \<comment> \<open>the longest prefix matching \<open>-?(0|[1-9][0-9]*)(\.[0-9]+)?([eE][-+]?[0-9]+)?\<close>;
      an integer literal of more than 4300 digits is refused when it is converted\<close>
  "scan_number s =
     (let sign = (if startswith s ''-'' then ''-'' else []);
          s1 = drop (length sign) s
      in case s1 of
           [] \<Rightarrow> None
         | c # cs \<Rightarrow>
             if \<not> is_digit c then None
             else
               (let ip = (if c = CHR ''0'' then ''0'' else takeWhile is_digit s1);
                    s2 = drop (length ip) s1;
                    fp = (case s2 of
                            d # r \<Rightarrow> if d = CHR ''.'' \<and> takeWhile is_digit r \<noteq> []
                                     then d # takeWhile is_digit r else []
                          | [] \<Rightarrow> []);
                    s3 = drop (length fp) s2;
                    ep = (case s3 of
                            x # r \<Rightarrow>
                              if x = CHR ''e'' \<or> x = CHR ''E''
                              then (let sg = (if startswith r ''-'' \<or> startswith r ''+''
                                              then take 1 r else []);
                                        ds = takeWhile is_digit (drop (length sg) r)
                                    in if ds \<noteq> [] then x # sg @ ds else [])
                              else []
                          | [] \<Rightarrow> []);
                    s4 = drop (length ep) s3
                in if fp = [] \<and> ep = [] \<and> 4300 < length ip then None
                   else Some (sign @ ip @ fp @ ep, s4)))"

fun parse_value :: "nat \<Rightarrow> string \<Rightarrow> (json \<times> string) option"
  and parse_array :: "nat \<Rightarrow> string \<Rightarrow> json list \<Rightarrow> (json \<times> string) option"
  and parse_object :: "nat \<Rightarrow> string \<Rightarrow> (string \<times> json) list \<Rightarrow> (json \<times> string) option"
where
  "parse_value 0 s = None"
| "parse_value (Suc k) s =
     (if startswith s [CHR 0x22]
      then (case scanstring (tl s) [] of
              Some (str, r) \<Rightarrow> Some (JStr str, r)
            | None \<Rightarrow> None)
      else if startswith s ''{''
      then (let r = skip_ws (tl s)
            in if startswith r ''}'' then Some (JObj [], tl r) else parse_object k r [])
      else if startswith s ''[''
      then (let r = skip_ws (tl s)
            in if startswith r '']'' then Some (JArr [], tl r) else parse_array k r [])
      else if startswith s ''null'' then Some (JNull, drop 4 s)
      else if startswith s ''true'' then Some (JBool True, drop 4 s)
      else if startswith s ''false'' then Some (JBool False, drop 5 s)
      else (case scan_number s of
              Some (lit, r) \<Rightarrow> Some (JNum lit, r)
            | None \<Rightarrow>
                if startswith s ''NaN'' then Some (JNum ''NaN'', drop 3 s)
                else if startswith s ''Infinity'' then Some (JNum ''Infinity'', drop 8 s)
                else if startswith s ''-Infinity'' then Some (JNum ''-Infinity'', drop 9 s)
                else None))"
| "parse_array 0 s items = None"
| "parse_array (Suc k) s items =
     (case parse_value k s of
        None \<Rightarrow> None
      | Some (v, r) \<Rightarrow>
          (let r1 = skip_ws r
           in if startswith r1 '']'' then Some (JArr (items @ [v]), tl r1)
              else if startswith r1 '','' then parse_array k (skip_ws (tl r1)) (items @ [v])
              else None))"
| "parse_object 0 s pairs = None"
| "parse_object (Suc k) s pairs =
     (if \<not> startswith s [CHR 0x22] then None
      else (case scanstring (tl s) [] of
              None \<Rightarrow> None
            | Some (key, r) \<Rightarrow>
                (let r1 = skip_ws r
                 in if \<not> startswith r1 '':'' then None
                    else (case parse_value k (skip_ws (tl r1)) of
                            None \<Rightarrow> None
                          | Some (v, r2) \<Rightarrow>
                              (let r3 = skip_ws r2
                               in if startswith r3 ''}''
                                  then Some (JObj (dict_set pairs key v), tl r3)
                                  else if startswith r3 '',''
                                  then parse_object k (skip_ws (tl r3)) (dict_set pairs key v)
                                  else None)))))"

definition json_loads :: "string \<Rightarrow> exn + json" where
  \<comment> \<open>The first argument of \<open>parse_value\<close> bounds the number of nested calls; two per
      character of the text are never reached. \<open>JSONDecodeError\<close> stands for every
      exception of \<open>json.loads\<close>, also the \<open>ValueError\<close> of an integer literal that is
      too long.\<close>
  "json_loads s =
     (case parse_value (2 * length s + 2) (skip_ws s) of
        Some (v, r) \<Rightarrow> if skip_ws r = [] then Inr v else Inl JSONDecodeError
      | None \<Rightarrow> Inl JSONDecodeError)"

definition py_iter :: "json \<Rightarrow> exn + json list" where
  \<comment> \<open>what a \<open>for\<close> loop over a parsed value visits: the elements of a list, the keys of a
      dict, the characters of a string; anything else is not iterable\<close>
  "py_iter data =
     (case data of
        JArr xs \<Rightarrow> Inr xs
      | JObj kvs \<Rightarrow> Inr (map (\<lambda>kv. JStr (fst kv)) kvs)
      | JStr s \<Rightarrow> Inr (map (\<lambda>c. JStr [c]) s)
      | _ \<Rightarrow> Inl TypeError)"

section \<open>The fact extractor of \<open>src3\<close>\<close>

definition fact_categories :: "string list" where
  "fact_categories = [''decision'', ''action_item'', ''open_question'', ''deadline'', ''metric'']"

definition confidence_levels :: "string list" where
  "confidence_levels = [''high'', ''medium'', ''low'']"

definition as_str :: "json \<Rightarrow> string option" where
  \<comment> \<open>a field declared \<open>str\<close> takes a JSON string and refuses a value of another type\<close>
  "as_str v = (case v of JStr s \<Rightarrow> Some s | _ \<Rightarrow> None)"

definition as_opt_str :: "json \<Rightarrow> string option option" where
  \<comment> \<open>a field declared \<open>Optional[str]\<close> takes a JSON string or null\<close>
  "as_opt_str v = (case v of JNull \<Rightarrow> Some None | JStr s \<Rightarrow> Some (Some s) | _ \<Rightarrow> None)"

definition new_ExtractedFact ::
  "json \<Rightarrow> json \<Rightarrow> json \<Rightarrow> json \<Rightarrow> json \<Rightarrow> exn + ExtractedFact" where
  \<comment> \<open>Modelled from the spec: the constructor of \<open>ExtractedFact\<close> with its validation.
      \<open>fact_type\<close> and \<open>confidence\<close> must be a string of their enumerations, \<open>content\<close>
      and \<open>source_quote\<close> strings, \<open>context\<close> a string or null.\<close>
  "new_ExtractedFact ft ct sq cf cx =
     (case (as_str ft, as_str ct, as_str sq, as_str cf, as_opt_str cx) of
        (Some ft', Some ct', Some sq', Some cf', Some cx') \<Rightarrow>
          if ft' \<in> set fact_categories \<and> cf' \<in> set confidence_levels
          then Inr \<lparr>fact_type = ft', content = ct', source_quote = sq', confidence = cf',
                    fact_context = cx'\<rparr>
          else Inl ValidationError
      | _ \<Rightarrow> Inl ValidationError)"

definition fact_of_item :: "(string \<times> json) list \<Rightarrow> string \<Rightarrow> exn + ExtractedFact" where
  \<comment> \<open>the constructor call of the loop body, for an item that is a dict\<close>
  "fact_of_item item ftype =
     new_ExtractedFact
       (dict_get item ''fact_type'' (JStr ftype))
       (dict_get item ''content'' (JStr []))
       (dict_get item ''source_quote'' (JStr []))
       (dict_get item ''confidence'' (JStr ''high''))
       (dict_get item ''context'' JNull)"

fun facts_of_data :: "json list \<Rightarrow> string \<Rightarrow> ExtractedFact list \<Rightarrow> ExtractedFact list" where
  \<comment> \<open>the loop \<open>for item in data\<close>, with the list \<open>facts\<close> built so far as \<open>fs\<close>\<close>
  "facts_of_data [] ftype fs = fs"
| "facts_of_data (item # rest) ftype fs =
     (case item of
        JObj kvs \<Rightarrow>
          (case fact_of_item kvs ftype of
             Inr fct \<Rightarrow> facts_of_data rest ftype (fs @ [fct])
           | Inl e \<Rightarrow> facts_of_data rest ftype fs)
      | _ \<Rightarrow> facts_of_data rest ftype fs)"

definition parse_fact_array :: "string \<Rightarrow> string \<Rightarrow> exn + ExtractedFact list" where
  "parse_fact_array text ftype =
     (let cleaned = strip (clean (extract_array (remove_markdown (strip text))))
      in if cleaned = [] \<or> cleaned = ''[]'' then Inr []
         else (case json_loads cleaned of
                 Inl e \<Rightarrow> Inl e
               | Inr data \<Rightarrow>
                   (case py_iter data of
                      Inl e \<Rightarrow> Inl e
                    | Inr items \<Rightarrow> Inr (facts_of_data items ftype []))))"

text \<open>
  The generator is a function of the number of calls made to it so far and of the prompt;
  it raises (\<open>Inl\<close>) or returns the content of its response. Every function that invokes it
  takes the count of earlier calls and returns the new count.
\<close>

type_synonym llm = "nat \<Rightarrow> string \<Rightarrow> exn + string"

definition max_retries :: nat where
  "max_retries = 3"

definition type_instructions :: "string \<Rightarrow> string" where
  \<comment> \<open>\<open>type_instructions.get(fact_type, "")\<close>\<close>
  "type_instructions ftype =
     (if ftype = ''decision''
      then ''Extract DECISIONS - things that were decided/agreed upon. Must have''
         @ '' finality words like 'decided', 'agreed', 'will', 'let's go with'.''
      else if ftype = ''action_item''
      then ''Extract ACTION ITEMS - things someone committed to do. Must have 'I''
         @ '' will', 'X will', 'please', or action verbs. SKIP conditionals.''
      else if ftype = ''deadline''
      then ''Extract DEADLINES - explicit time references like 'Thursday', 'by''
         @ '' noon', 'next Tuesday at 2pm', 'EOD Wednesday'.''
      else if ftype = ''metric''
      then ''Extract METRICS - explicit numbers like '$3.5M', '3 hours', '12 clients',''
         @ '' '23%'.''
      else [])"

definition extract_prompt :: "string \<Rightarrow> string \<Rightarrow> string \<Rightarrow> string" where
  "extract_prompt transcript ftype skill =
     ''# SKILL INSTRUCTIONS\<newline>''
     @ skill
     @ ''\<newline>''
     @ ''\<newline>''
     @ ''# SPECIFIC TASK\<newline>''
     @ type_instructions ftype
     @ ''\<newline>''
     @ ''\<newline>''
     @ ''# TRANSCRIPT\<newline>''
     @ transcript
     @ ''\<newline>''
     @ ''\<newline>''
     @ ''# OUTPUT FORMAT\<newline>''
     @ ''Return ONLY a valid JSON array. Each item must have:\<newline>''
     @ ''- fact_type: \"''
     @ ftype
     @ ''\"\<newline>''
     @ ''- content: Brief description\<newline>''
     @ ''- source_quote: EXACT quote from transcript\<newline>''
     @ ''- confidence: \"high\", \"medium\", or \"low\"\<newline>''
     @ ''\<newline>''
     @ ''Example:\<newline>''
     @ ''[{\"fact_type\": \"''
     @ ftype
     @ ''\", \"content\": \"description here\", \"source_quote\": \"exact words''
     @ '' from transcript\", \"confidence\": \"high\"}]\<newline>''
     @ ''\<newline>''
     @ ''If no ''
     @ ftype
     @ ''s found, return empty array: []\<newline>''
     @ ''\<newline>''
     @ ''JSON array:''"

fun extract_loop ::
  "llm \<Rightarrow> string \<Rightarrow> string \<Rightarrow> nat list \<Rightarrow> nat \<Rightarrow> ExtractedFact list option \<times> nat" where
  \<comment> \<open>The loop over the attempts still to come. Running out of attempts would leave the
      loop and return \<open>None\<close>.\<close>
  "extract_loop llm prompt ftype [] calls = (None, calls)"
| "extract_loop llm prompt ftype (attempt # rest) calls =
     (case (case llm calls prompt of
              Inl e \<Rightarrow> Inl e
            | Inr response \<Rightarrow> parse_fact_array response ftype) of
        Inr fs \<Rightarrow> (Some fs, Suc calls)
      | Inl e \<Rightarrow>
          if attempt < max_retries then extract_loop llm prompt ftype rest (Suc calls)
          else (Some [], Suc calls))"

definition extract_fact_type ::
  "llm \<Rightarrow> nat \<Rightarrow> string \<Rightarrow> string \<Rightarrow> string \<Rightarrow> ExtractedFact list option \<times> nat" where
  "extract_fact_type llm calls transcript ftype skill =
     extract_loop llm (extract_prompt transcript ftype skill) ftype [1..<max_retries + 1] calls"

definition extract_facts ::
  "skills \<Rightarrow> llm \<Rightarrow> nat \<Rightarrow> string \<Rightarrow> exn + ExtractedFacts \<times> nat" where
  \<comment> \<open>The node reads the key \<open>normalized_transcript\<close> and adds \<open>extracted_facts\<close>. The
      lists of \<open>ExtractedFacts\<close> are declared lists, so a \<open>None\<close> would be refused.\<close>
  "extract_facts skills llm calls transcript =
     (case load_skill skills ''EXTRACT_FACTS'' of
        Inl e \<Rightarrow> Inl e
      | Inr skill \<Rightarrow>
          (case extract_fact_type llm calls transcript ''decision'' skill of
             (ds, c1) \<Rightarrow>
          (case extract_fact_type llm c1 transcript ''action_item'' skill of
             (ais, c2) \<Rightarrow>
          (case extract_fact_type llm c2 transcript ''deadline'' skill of
             (dls, c3) \<Rightarrow>
          (case extract_fact_type llm c3 transcript ''metric'' skill of
             (ms, c4) \<Rightarrow>
               (case (ds, ais, dls, ms) of
                  (Some ds', Some ais', Some dls', Some ms') \<Rightarrow>
                    Inr (\<lparr>decisions = ds', action_items = ais', open_questions = [],
                          deadlines = dls', metrics = ms'\<rparr>, c4)
                | _ \<Rightarrow> Inl ValidationError))))))"

section \<open>Helpers shared by the artifact generators\<close>

function str_nat :: "nat \<Rightarrow> string" where
  \<comment> \<open>the decimal text of a number, as an f-string prints it\<close>
  "str_nat n =
     (if n < 10 then [''0123456789'' ! n]
      else str_nat (n div 10) @ [''0123456789'' ! (n mod 10)])"
  by pat_completeness auto
termination
  by (relation "measure id") auto

fun join :: "string \<Rightarrow> string list \<Rightarrow> string" where
  \<comment> \<open>\<open>sep.join(parts)\<close>\<close>
  "join sep [] = []"
| "join sep [x] = x"
| "join sep (x # y # ys) = x @ sep @ join sep (y # ys)"

fun dedupe :: "'a list \<Rightarrow> 'a list" where
  \<comment> \<open>\<open>list(dict.fromkeys(xs))\<close>: the first occurrence of each element, in order\<close>
  "dedupe [] = []"
| "dedupe (x # xs) = x # dedupe (filter (\<lambda>y. y \<noteq> x) xs)"

fun map_exn :: "('a \<Rightarrow> exn + 'b) \<Rightarrow> 'a list \<Rightarrow> exn + 'b list" where
  \<comment> \<open>a loop or comprehension that stops at the first exception\<close>
  "map_exn g [] = Inr []"
| "map_exn g (x # xs) =
     (case g x of
        Inl e \<Rightarrow> Inl e
      | Inr y \<Rightarrow> (case map_exn g xs of Inl e \<Rightarrow> Inl e | Inr ys \<Rightarrow> Inr (y # ys)))"

definition hashable :: "json \<Rightarrow> bool" where
  \<comment> \<open>a parsed list or dict cannot be the key of a dict\<close>
  "hashable v = (case v of JArr xs \<Rightarrow> False | JObj kvs \<Rightarrow> False | _ \<Rightarrow> True)"

definition dedupe_value :: "json \<Rightarrow> exn + json" where
  \<comment> \<open>\<open>list(dict.fromkeys(v))\<close> for a parsed value \<open>v\<close>. Numbers and truth values that
      Python holds equal (\<open>1\<close>, \<open>1.0\<close>, \<open>true\<close>) are kept apart here; a list with
      one of them in it is refused by the constructors below in either case.\<close>
  "dedupe_value v =
     (case py_iter v of
        Inl e \<Rightarrow> Inl e
      | Inr xs \<Rightarrow> if list_all hashable xs then Inr (JArr (dedupe xs)) else Inl TypeError)"

definition as_str_list :: "json \<Rightarrow> string list option" where
  \<comment> \<open>a field declared \<open>List[str]\<close> takes a list of JSON strings\<close>
  "as_str_list v =
     (case v of
        JArr xs \<Rightarrow> if list_all (\<lambda>x. as_str x \<noteq> None) xs
                   then Some (map (\<lambda>x. the (as_str x)) xs) else None
      | _ \<Rightarrow> None)"

definition exn_str :: "exn \<Rightarrow> string" where
  \<comment> \<open>\<open>str(e)\<close>. The message of a generator failure is carried by the exception; the
      messages of the library exceptions are abridged to their class.\<close>
  "exn_str e =
     (case e of
        GeneratorError msg \<Rightarrow> msg
      | FileNotFoundError \<Rightarrow> ''FileNotFoundError''
      | JSONDecodeError \<Rightarrow> ''JSONDecodeError''
      | TypeError \<Rightarrow> ''TypeError''
      | ValidationError \<Rightarrow> ''ValidationError'')"

definition with_feedback :: "string \<Rightarrow> string \<Rightarrow> string" where
  \<comment> \<open>the variable \<open>prompt_with_feedback\<close>\<close>
  "with_feedback prompt feedback =
     (if feedback \<noteq> []
      then prompt @ ''\<newline>'' @ ''\<newline>'' @ ''PREVIOUS ATTEMPT FEEDBACK:\<newline>''
             @ feedback @ ''\<newline>'' @ ''FIX THESE ISSUES!''
      else prompt)"

section \<open>The to-do generator\<close>

definition priorities :: "string list" where
  "priorities = [''High'', ''Medium'', ''Low'']"

definition new_ToDo :: "(string \<times> json) list \<Rightarrow> exn + ToDo" where
  \<comment> \<open>Modelled from the spec: \<open>ToDo(**td)\<close> for a dict \<open>td\<close>. \<open>task\<close> is required and a
      string; \<open>deadline\<close> is a string or null and \<open>None\<close> by default; \<open>priority\<close> is one
      of three strings and \<open>Medium\<close> by default; \<open>source_facts\<close> is a list of strings,
      empty by default; other keys are ignored.\<close>
  "new_ToDo td =
     (case (map_of td ''task'',
            as_opt_str (dict_get td ''deadline'' JNull),
            as_str (dict_get td ''priority'' (JStr ''Medium'')),
            as_str_list (dict_get td ''source_facts'' (JArr []))) of
        (Some tv, Some dl, Some pr, Some sfs) \<Rightarrow>
          (case as_str tv of
             Some t \<Rightarrow>
               if pr \<in> set priorities
               then Inr \<lparr>source_facts = sfs, priority = pr, task = t, deadline = dl\<rparr>
               else Inl ValidationError
           | None \<Rightarrow> Inl ValidationError)
      | _ \<Rightarrow> Inl ValidationError)"

definition todo_of_item :: "json \<Rightarrow> exn + ToDo" where
  \<comment> \<open>\<open>ToDo(**td)\<close>: only a dict can be unpacked into keyword arguments\<close>
  "todo_of_item td = (case td of JObj kvs \<Rightarrow> new_ToDo kvs | _ \<Rightarrow> Inl TypeError)"

definition dedupe_source_facts :: "json \<Rightarrow> exn + json" where
  \<comment> \<open>the body of the loop under \<open># Deduplicate source_facts\<close>, for one item of any
      parsed type: the test \<open>'source_facts' in item\<close> is a key test on a dict, a substring
      test on a string, a membership test on a list, and raises on the rest; the
      subscript that follows works on a dict only\<close>
  "dedupe_source_facts item =
     (case item of
        JObj kvs \<Rightarrow>
          (case map_of kvs ''source_facts'' of
             None \<Rightarrow> Inr item
           | Some v \<Rightarrow>
               (case dedupe_value v of
                  Inl e \<Rightarrow> Inl e
                | Inr v' \<Rightarrow> Inr (JObj (dict_set kvs ''source_facts'' v'))))
      | JStr s \<Rightarrow> if contains s ''source_facts'' then Inl TypeError else Inr item
      | JArr xs \<Rightarrow> if JStr ''source_facts'' \<in> set xs then Inl TypeError else Inr item
      | _ \<Rightarrow> Inl TypeError)"

definition clean_json :: "string \<Rightarrow> string" where
  \<comment> \<open>\<open>_clean_json\<close> of the to-do generator\<close>
  "clean_json text = strip (clean (extract_array (remove_markdown (strip text))))"

definition todos_of_response :: "string \<Rightarrow> exn + ToDo list" where
  \<comment> \<open>the body of the \<open>try\<close> from the response up to the repaired to-dos\<close>
  "todos_of_response response =
     (case json_loads (clean_json response) of
        Inl e \<Rightarrow> Inl e
      | Inr data \<Rightarrow>
          (case py_iter data of
             Inl e \<Rightarrow> Inl e
           | Inr items \<Rightarrow>
               (case map_exn dedupe_source_facts items of
                  Inl e \<Rightarrow> Inl e
                | Inr items' \<Rightarrow>
                    (case map_exn todo_of_item items' of
                       Inl e \<Rightarrow> Inl e
                     | Inr tds \<Rightarrow> Inr (fix_common_issues tds)))))"

definition numbered :: "ValidatedFact list \<Rightarrow> string list" where
  \<comment> \<open>\<open>[f"{i+1}. {f.content}" for i, f in enumerate(facts)]\<close>\<close>
  "numbered fs = map (\<lambda>(i, f). str_nat (i + 1) @ ''. '' @ content f) (enumerate 0 fs)"

definition todos_facts_text :: "ValidatedFact list \<Rightarrow> ValidatedFact list \<Rightarrow> string" where
  "todos_facts_text action_facts deadline_facts =
     ''ACTION ITEMS:\<newline>'' @ join ''\<newline>'' (numbered action_facts)
     @ (if deadline_facts \<noteq> []
        then ''\<newline>'' @ ''\<newline>'' @ ''DEADLINES:\<newline>''
               @ join ''\<newline>'' (numbered deadline_facts)
        else [])"

definition todos_prompt :: "string \<Rightarrow> string \<Rightarrow> string" where
  "todos_prompt skill facts_text =
     ''# SKILL INSTRUCTIONS\<newline>''
     @ skill
     @ ''\<newline>''
     @ ''\<newline>''
     @ ''# VALIDATED FACTS\<newline>''
     @ facts_text
     @ ''\<newline>''
     @ ''\<newline>''
     @ ''# OUTPUT FORMAT\<newline>''
     @ ''Return ONLY a valid JSON array. Maximum 5 to-dos.\<newline>''
     @ ''Match action items with deadlines where applicable.\<newline>''
     @ ''Use JSON null for missing deadlines (NOT \"Not specified\").\<newline>''
     @ ''\<newline>''
     @ ''[{\"task\": \"Specific task here\", \"deadline\": null, \"priority\":''
     @ '' \"High\", \"source_facts\": [\"exact fact text\"]}]\<newline>''
     @ ''\<newline>''
     @ ''JSON array:''"

fun todos_loop ::
  "llm \<Rightarrow> string \<Rightarrow> nat list \<Rightarrow> string \<Rightarrow> nat \<Rightarrow> ToDo list option \<times> nat" where
  \<comment> \<open>The loop over the attempts still to come, with the current feedback and the number
      of generator calls so far. Running out of attempts would leave the loop and return
      \<open>None\<close>.\<close>
  "todos_loop llm prompt [] feedback calls = (None, calls)"
| "todos_loop llm prompt (attempt # rest) feedback calls =
     (case (case llm calls (with_feedback prompt feedback) of
              Inl e \<Rightarrow> Inl e
            | Inr response \<Rightarrow> todos_of_response response) of
        Inr tds \<Rightarrow>
          (let issues = validate_todos tds
           in if issues \<noteq> [] \<and> attempt < max_retries
              then todos_loop llm prompt rest (join ''\<newline>'' issues) (Suc calls)
              else (Some tds, Suc calls))
      | Inl e \<Rightarrow>
          if attempt < max_retries
          then todos_loop llm prompt rest (''JSON parsing error: '' @ exn_str e) (Suc calls)
          else (Some [], Suc calls))"

definition generate_todos ::
  "skills \<Rightarrow> llm \<Rightarrow> nat \<Rightarrow> ValidatedFacts \<Rightarrow> exn + ToDo list option \<times> nat" where
  \<comment> \<open>The node reads the key \<open>validated_facts\<close> and adds the key \<open>todos\<close>.\<close>
  "generate_todos skills llm calls validated =
     (case load_skill skills ''GENERATE_TODOS'' of
        Inl e \<Rightarrow> Inl e
      | Inr skill \<Rightarrow>
          (let action_facts = filter (\<lambda>f. fact_type f = ''action_item'') (facts validated);
               deadline_facts = filter (\<lambda>f. fact_type f = ''deadline'') (facts validated)
           in if action_facts = [] then Inr (Some [], calls)
              else Inr (todos_loop llm
                          (todos_prompt skill (todos_facts_text action_facts deadline_facts))
                          [1..<max_retries + 1] [] calls)))"

section \<open>The follow-up email generator\<close>

definition extract_object :: "string \<Rightarrow> string" where
  \<comment> \<open>the block under \<open># Extract JSON object\<close>\<close>
  "extract_object text =
     (let t1 = (if CHR ''{'' \<in> set text then dropWhile (\<lambda>c. c \<noteq> CHR ''{'') text else text)
      in if CHR ''}'' \<in> set t1 then rev (dropWhile (\<lambda>c. c \<noteq> CHR ''}'') (rev t1)) else t1)"

definition remove_markdown_email :: "string \<Rightarrow> string" where
  \<comment> \<open>the block under \<open># Remove markdown code blocks\<close>, which strips the inner part\<close>
  "remove_markdown_email text =
     (if contains text fence
      then (let parts = split_on fence text []
            in if 2 \<le> length parts
               then (let inner = parts ! 1
                     in strip (if startswith inner ''json'' then drop 4 inner else inner))
               else text)
      else text)"

definition is_control_email :: "char \<Rightarrow> bool" where
  \<comment> \<open>the class \<open>[\x00-\x1f\x7f-\x9f]\<close>\<close>
  "is_control_email c = (let n = (of_char c :: nat) in n \<le> 31 \<or> (127 \<le> n \<and> n \<le> 159))"

fun collapse_runs :: "(char \<Rightarrow> bool) \<Rightarrow> string \<Rightarrow> string" where
  \<comment> \<open>every maximal run of characters of the class becomes one space: \<open>\s+\<close> and
      \<open>[ \t]+\<close> replaced by \<open>' '\<close>\<close>
  "collapse_runs cls [] = []"
| "collapse_runs cls [c] = (if cls c then '' '' else [c])"
| "collapse_runs cls (c # d # cs) =
     (if cls c
      then (if cls d then collapse_runs cls (d # cs)
            else CHR '' '' # collapse_runs cls (d # cs))
      else c # collapse_runs cls (d # cs))"

function fix_string_newlines :: "string \<Rightarrow> string" where
  \<comment> \<open>\<open>re.sub(r'"[^"]*"', fix_string_newlines, s)\<close>: in every quoted stretch, a line
      feed, carriage return or tab becomes its two-character escape\<close>
  "fix_string_newlines [] = []"
| "fix_string_newlines (c # cs) =
     (if c = CHR 0x22 \<and> CHR 0x22 \<in> set cs
      then CHR 0x22
           # concat (map (\<lambda>x. if x = CHR 0x0A then [CHR 0x5C] @ ''n''
                                else if x = CHR 0x0D then [CHR 0x5C] @ ''r''
                                else if x = CHR 0x09 then [CHR 0x5C] @ ''t''
                                else [x])
                        (takeWhile (\<lambda>x. x \<noteq> CHR 0x22) cs))
           @ CHR 0x22 # fix_string_newlines (drop 1 (dropWhile (\<lambda>x. x \<noteq> CHR 0x22) cs))
      else c # fix_string_newlines cs)"
  by pat_completeness auto
termination
proof (relation "measure length")
  show "wf (measure length)" by simp
next
  fix c :: char and cs :: string
  have "length (dropWhile (\<lambda>x. x \<noteq> CHR 0x22) cs) \<le> length cs"
    by (rule length_dropWhile_le)
  then show "(drop 1 (dropWhile (\<lambda>x. x \<noteq> CHR 0x22) cs), c # cs) \<in> measure length"
    by simp
qed simp

definition clean_json_email :: "string \<Rightarrow> string" where
  \<comment> \<open>\<open>_clean_json\<close> of the email generator\<close>
  "clean_json_email text =
     strip (fix_string_newlines (collapse_runs py_isspace (fix_trailing_commas
       (map (\<lambda>c. if is_control_email c then CHR '' '' else c)
         (strip_block_comments (strip_line_comments
           (extract_object (remove_markdown_email (strip text)))))))))"

fun collapse_newlines :: "string \<Rightarrow> nat \<Rightarrow> string" where
  \<comment> \<open>\<open>re.sub(r'\n{3,}', '\n\n', s)\<close>; the second argument counts the line feeds of the
      run being read\<close>
  "collapse_newlines [] n = replicate (min n 2) (CHR 0x0A)"
| "collapse_newlines (c # cs) n =
     (if c = CHR 0x0A then collapse_newlines cs (Suc n)
      else replicate (min n 2) (CHR 0x0A) @ c # collapse_newlines cs 0)"

fun py_replace :: "string \<Rightarrow> string \<Rightarrow> string \<Rightarrow> string" where
  \<comment> \<open>\<open>py_replace old new s\<close> is \<open>s.replace(old, new)\<close> for a non-empty \<open>old\<close>\<close>
  "py_replace old new [] = []"
| "py_replace old new (c # cs) =
     (if startswith (c # cs) old then new @ py_replace old new (drop (length old - 1) cs)
      else c # py_replace old new cs)"

definition clean_body :: "string \<Rightarrow> string" where
  \<comment> \<open>the block under \<open># Clean up email body\<close>\<close>
  "clean_body b =
     strip (py_replace ''Best regards'' (''\<newline>'' @ ''\<newline>'' @ ''Best regards'')
       (py_replace '' - '' (''\<newline>'' @ ''- '')
         (collapse_runs (\<lambda>c. c = CHR '' '' \<or> c = CHR 0x09) (collapse_newlines b 0))))"

definition new_FollowUpEmail :: "(string \<times> json) list \<Rightarrow> exn + FollowUpEmail" where
  \<comment> \<open>Modelled from the spec: \<open>FollowUpEmail(**data)\<close> for a dict \<open>data\<close>. \<open>subject\<close> and
      \<open>body\<close> are required strings; \<open>source_facts\<close> is a list of strings, empty by
      default; other keys are ignored.\<close>
  "new_FollowUpEmail data =
     (case (map_of data ''subject'', map_of data ''body'',
            as_str_list (dict_get data ''source_facts'' (JArr []))) of
        (Some sv, Some bv, Some sfs) \<Rightarrow>
          (case (as_str sv, as_str bv) of
             (Some s, Some b) \<Rightarrow> Inr \<lparr>source_facts = sfs, subject = s, body = b\<rparr>
           | _ \<Rightarrow> Inl ValidationError)
      | _ \<Rightarrow> Inl ValidationError)"

definition clean_body_of :: "(string \<times> json) list \<Rightarrow> exn + (string \<times> json) list" where
  \<comment> \<open>the \<open>if 'body' in data\<close> block: the substitutions need a string\<close>
  "clean_body_of data =
     (case map_of data ''body'' of
        None \<Rightarrow> Inr data
      | Some v \<Rightarrow>
          (case as_str v of
             Some b \<Rightarrow> Inr (dict_set data ''body'' (JStr (clean_body b)))
           | None \<Rightarrow> Inl TypeError))"

definition dedupe_facts_of :: "(string \<times> json) list \<Rightarrow> exn + (string \<times> json) list" where
  \<comment> \<open>the \<open>if 'source_facts' in data\<close> block\<close>
  "dedupe_facts_of data =
     (case map_of data ''source_facts'' of
        None \<Rightarrow> Inr data
      | Some v \<Rightarrow>
          (case dedupe_value v of
             Inl e \<Rightarrow> Inl e
           | Inr v' \<Rightarrow> Inr (dict_set data ''source_facts'' v')))"

definition email_of_response :: "string \<Rightarrow> exn + FollowUpEmail" where
  \<comment> \<open>The body of the \<open>try\<close> from the response up to the email. Whatever the key tests
      do on a parsed value that is no dict, unpacking it into keyword arguments raises.\<close>
  "email_of_response response =
     (case json_loads (clean_json_email response) of
        Inl e \<Rightarrow> Inl e
      | Inr data \<Rightarrow>
          (case data of
             JObj kvs \<Rightarrow>
               (case clean_body_of kvs of
                  Inl e \<Rightarrow> Inl e
                | Inr kvs1 \<Rightarrow>
                    (case dedupe_facts_of kvs1 of
                       Inl e \<Rightarrow> Inl e
                     | Inr kvs2 \<Rightarrow> new_FollowUpEmail kvs2))
           | _ \<Rightarrow> Inl TypeError))"

definition placeholders :: "string list" where
  "placeholders = [''[your name]'', ''[recipient]'', ''[date]'', ''[name]'', ''[company]'']"

definition validate_email :: "FollowUpEmail \<Rightarrow> string list" where
  "validate_email email =
     (let body_lower = lower (body email);
          word_count = length (py_split (body email))
      in concat (map (\<lambda>ph. if contains body_lower ph
                           then [''Contains placeholder: '' @ ph @ '' - remove all placeholders'']
                           else []) placeholders)
         @ (if list_ex (\<lambda>word. contains body_lower word) ['' if '', '' might '', '' may '']
            then [''Contains conditional language - remove conditionals''] else [])
         @ (if word_count < 50
            then [''Too short ('' @ str_nat word_count @ '' words) - need at least 50 words'']
            else [])
         @ (if 300 < word_count
            then [''Too long ('' @ str_nat word_count @ '' words) - keep under 200 words'']
            else []))"

definition upper_ascii :: "string \<Rightarrow> string" where
  \<comment> \<open>\<open>s.upper()\<close> for a text of ASCII letters and underscores, which the three category
      names it is applied to are\<close>
  "upper_ascii s =
     map (\<lambda>c. case map_of (zip ''abcdefghijklmnopqrstuvwxyz'' ''ABCDEFGHIJKLMNOPQRSTUVWXYZ'') c of
                 Some d \<Rightarrow> d | None \<Rightarrow> c) s"

definition relevant_facts :: "ValidatedFacts \<Rightarrow> ValidatedFact list" where
  "relevant_facts validated =
     filter (\<lambda>f. fact_type f \<in> set [''decision'', ''action_item'', ''deadline''])
       (facts validated)"

definition email_facts_text :: "ValidatedFact list \<Rightarrow> string" where
  "email_facts_text relevant =
     join ''\<newline>''
       (map (\<lambda>(i, f). str_nat (i + 1) @ ''. ['' @ upper_ascii (fact_type f) @ ''] '' @ content f)
          (enumerate 0 relevant))"

definition email_prompt :: "string \<Rightarrow> string \<Rightarrow> string" where
  "email_prompt skill facts_text =
     ''# SKILL INSTRUCTIONS\<newline>''
     @ skill
     @ ''\<newline>''
     @ ''\<newline>''
     @ ''# VALIDATED FACTS\<newline>''
     @ facts_text
     @ ''\<newline>''
     @ ''\<newline>''
     @ ''# OUTPUT FORMAT\<newline>''
     @ ''Return a JSON object with subject, body, and source_facts.\<newline>''
     @ ''Keep the body simple - no special characters or line breaks.\<newline>''
     @ ''No placeholders like [Your Name].\<newline>''
     @ ''\<newline>''
     @ ''Example format:\<newline>''
     @ ''{\"subject\": \"Meeting Follow-Up\", \"body\": \"Following up on our''
     @ '' meeting. Key items: Item 1. Item 2. Best regards\", \"source_facts\":''
     @ '' [\"fact 1\", \"fact 2\"]}\<newline>''
     @ ''\<newline>''
     @ ''JSON:''"

definition fallback_email :: "ValidatedFact list \<Rightarrow> FollowUpEmail" where
  \<comment> \<open>the email built in the last \<open>except\<close> branch\<close>
  "fallback_email relevant =
     (let facts_list = map content (take 5 relevant)
      in \<lparr>source_facts = facts_list,
          subject = ''Meeting Follow-Up - Action Items'',
          body = ''Following up on our meeting discussion:\<newline>'' @ ''\<newline>''
                 @ ''Key items:\<newline>''
                 @ concat (map (\<lambda>fct. ''- '' @ fct @ ''\<newline>'') facts_list)
                 @ ''\<newline>'' @ ''Please let me know if you have any questions.\<newline>''
                 @ ''\<newline>'' @ ''Best regards''\<rparr>)"

fun email_loop ::
  "llm \<Rightarrow> string \<Rightarrow> ValidatedFact list \<Rightarrow> nat list \<Rightarrow> string \<Rightarrow> nat
     \<Rightarrow> FollowUpEmail list option \<times> nat" where
  \<comment> \<open>The loop over the attempts still to come, with the current feedback and the number
      of generator calls so far. Running out of attempts would leave the loop and return
      \<open>None\<close>.\<close>
  "email_loop llm prompt relevant [] feedback calls = (None, calls)"
| "email_loop llm prompt relevant (attempt # rest) feedback calls =
     (case (case llm calls (with_feedback prompt feedback) of
              Inl e \<Rightarrow> Inl e
            | Inr response \<Rightarrow> email_of_response response) of
        Inr email \<Rightarrow>
          (let issues = validate_email email
           in if issues \<noteq> [] \<and> attempt < max_retries
              then email_loop llm prompt relevant rest (join ''\<newline>'' issues) (Suc calls)
              else (Some [email], Suc calls))
      | Inl e \<Rightarrow>
          if attempt < max_retries
          then email_loop llm prompt relevant rest
                 (''JSON parsing error: '' @ exn_str e) (Suc calls)
          else (Some [fallback_email relevant], Suc calls))"

definition generate_email ::
  "skills \<Rightarrow> llm \<Rightarrow> nat \<Rightarrow> ValidatedFacts \<Rightarrow> exn + FollowUpEmail list option \<times> nat" where
  \<comment> \<open>The node reads the key \<open>validated_facts\<close> and adds the key \<open>follow_up_emails\<close>.\<close>
  "generate_email skills llm calls validated =
     (case load_skill skills ''GENERATE_EMAIL'' of
        Inl e \<Rightarrow> Inl e
      | Inr skill \<Rightarrow>
          (let relevant = relevant_facts validated
           in if relevant = [] then Inr (Some [], calls)
              else Inr (email_loop llm (email_prompt skill (email_facts_text relevant))
                          relevant [1..<max_retries + 1] [] calls)))"

section \<open>The validator node and what it touches\<close>

text \<open>
  Besides the extracted facts, a run of the validator node reads the skills directory, sets
  the module variable that keeps the skill loader, and prints a report. \<open>validate_facts\<close>
  above is the result of one run as a function of the directory and the facts;
  \<open>validate_facts_run\<close> is the run itself, on a world that also counts the calls made to
  the generator so far. A printed line is kept by its kind and its data.
\<close>

datatype printed =
    Summary nat nat
  | ReasonsHeader
  | ReasonLine string


definition report :: "ValidatedFacts \<Rightarrow> printed list" where
  \<comment> \<open>the lines printed after the result is built: the two counts, then up to three
      reasons under a header when there is any\<close>
  "report result =
     Summary (length (facts result)) (discarded_count result)
     # (if discarded_reasons result \<noteq> []
        then ReasonsHeader # map ReasonLine (take 3 (discarded_reasons result))
        else [])"


section \<open>Properties of the fact validators\<close>

lemma reason_present:
  "fst (validate_single_fact f) \<or> (\<exists>y. snd (validate_single_fact f) = Some y)"
  by (simp add: validate_single_fact_def Let_def)

lemma validate_loop_eq:
  "validate_loop fs V D R =
     (V @ map to_validated (filter (\<lambda>f. fst (validate_single_fact f)) fs),
      D @ filter (\<lambda>f. \<not> fst (validate_single_fact f)) fs,
      R @ map (\<lambda>f. snd (validate_single_fact f)) (filter (\<lambda>f. \<not> fst (validate_single_fact f)) fs))"
  by (induction fs arbitrary: V D R) (auto split: prod.splits)

lemma validate_facts_eq:
  assumes "skills ''VALIDATE_FACTS'' = Some t"
  shows "validate_facts skills e =
     Inr \<lparr>facts = map to_validated (filter (\<lambda>f. fst (validate_single_fact f)) (all_facts e)),
          discarded_count = length (filter (\<lambda>f. \<not> fst (validate_single_fact f)) (all_facts e)),
          discarded_reasons = map (\<lambda>f. the (snd (validate_single_fact f)))
             (filter (\<lambda>f. \<not> fst (validate_single_fact f)) (all_facts e))\<rparr>"
  using assms reason_present
  by (auto simp add: validate_facts_def load_skill_def validate_loop_eq list_all_iff)

lemma validate_loop_src2_eq:
  "validate_loop_src2 fs V D =
     (V @ map to_validated_src2 (filter (\<lambda>f. rejection_src2 f = None) fs),
      D @ map (\<lambda>f. the (rejection_src2 f)) (filter (\<lambda>f. rejection_src2 f \<noteq> None) fs))"
  by (induction fs arbitrary: V D) (auto split: option.splits)

lemma validate_facts_src2_eq:
  "validate_facts_src2 e =
     \<lparr>facts = map to_validated_src2 (filter (\<lambda>f. rejection_src2 f = None) (all_facts_src2 e)),
      discarded_count = length (filter (\<lambda>f. rejection_src2 f \<noteq> None) (all_facts_src2 e)),
      discarded_reasons = map (\<lambda>f. the (rejection_src2 f))
         (filter (\<lambda>f. rejection_src2 f \<noteq> None) (all_facts_src2 e))\<rparr>"
  by (simp add: validate_facts_src2_def validate_loop_src2_eq)

lemma accepted_quote: "fst (validate_single_fact f) \<Longrightarrow> 5 \<le> length (source_quote f)"
  by (simp add: validate_single_fact_def Let_def split: if_splits)

lemma accepted_commitment:
  "fst (validate_single_fact f) \<Longrightarrow> fact_type f = ''action_item''
     \<Longrightarrow> has_commitment (lower (source_quote f))"
  by (simp add: validate_single_fact_def Let_def split: if_splits)

lemma to_validated_sel [simp]:
  "fact_type (to_validated f) = fact_type f"
  "source_quote (to_validated f) = source_quote f"
  "content (to_validated f) = content f"
  "confidence (to_validated f) = confidence f"
  by (simp_all add: to_validated_def)

lemma to_validated_src2_sel [simp]:
  "fact_type (to_validated_src2 f) = fact_type f"
  "source_quote (to_validated_src2 f) = source_quote f"
  "content (to_validated_src2 f) = content f"
  "confidence (to_validated_src2 f) = confidence f"
  by (simp_all add: to_validated_src2_def)

lemma accepted_src2_words:
  "rejection_src2 f = None \<Longrightarrow> 3 \<le> length (py_split (source_quote f))"
  by (simp add: rejection_src2_def split: if_splits)

lemma accepted_src2_commitment:
  "rejection_src2 f = None \<Longrightarrow> fact_type f = ''action_item''
     \<Longrightarrow> has_commitment_src2 (lower (source_quote f))"
  by (simp add: rejection_src2_def split: if_splits)

lemma short_reason: "length (source_quote f) < 5 \<Longrightarrow>
  validate_single_fact f = (False, Some (''Missing source quote: '' @ take 50 (content f)))"
  by (auto simp add: validate_single_fact_def Let_def)

lemma short_reason_src2: "length (py_split (source_quote f)) < 3 \<Longrightarrow>
  rejection_src2 f = Some (''Vague source quote: '' @ take 50 (content f))
  \<or> rejection_src2 f = Some (''Low confidence '' @ fact_type f @ '': '' @ take 50 (content f))"
  by (auto simp add: rejection_src2_def)

lemma reason_in_ledger:
  assumes "f \<in> set fs" and "validate_single_fact f = (False, Some r)"
  shows "r \<in> set (map (\<lambda>f. the (snd (validate_single_fact f)))
                     (filter (\<lambda>f. \<not> fst (validate_single_fact f)) fs))"
proof -
  from assms have "f \<in> set (filter (\<lambda>f. \<not> fst (validate_single_fact f)) fs)"
    by simp
  moreover from assms have "the (snd (validate_single_fact f)) = r"
    by simp
  ultimately show ?thesis
    by (metis (no_types, lifting) image_eqI set_map)
qed

lemma reason_in_ledger_src2:
  assumes "f \<in> set fs" and "rejection_src2 f = Some r"
  shows "r \<in> set (map (\<lambda>f. the (rejection_src2 f))
                     (filter (\<lambda>f. rejection_src2 f \<noteq> None) fs))"
proof -
  from assms have "f \<in> set (filter (\<lambda>f. rejection_src2 f \<noteq> None) fs)"
    by simp
  moreover from assms have "the (rejection_src2 f) = r"
    by simp
  ultimately show ?thesis
    by (metis (no_types, lifting) image_eqI set_map)
qed

lemma ledger_src2:
  assumes "f \<in> set (all_facts_src2 e)" and "rejection_src2 f = Some r"
  shows "r \<in> set (discarded_reasons (validate_facts_src2 e))"
  using reason_in_ledger_src2 [OF assms] by (simp add: validate_facts_src2_eq)

text \<open>
  Claim C3, as the code has it. The validator of \<open>src3\<close> measures the source quote in
  characters: a fact whose \<open>source_quote\<close> has fewer than 5 characters is discarded with
  the reason \<open>Missing source quote: \<close> followed by the first 50 characters of its content,
  and no validated fact is built from it. The validator of \<open>src2\<close> counts words: a fact
  whose \<open>source_quote\<close> has fewer than 3 words is discarded with a recorded reason (that
  of rule 2, or that of rule 1 when the fact is a low-confidence decision or action item),
  and no validated fact is built from it.
\<close>

theorem short_quote_discarded:
  assumes "skills ''VALIDATE_FACTS'' = Some t"
  shows "(f \<in> set (all_facts e) \<and> length (source_quote f) < 5 \<longrightarrow>
            (\<exists>v. validate_facts skills e = Inr v
               \<and> to_validated f \<notin> set (facts v)
               \<and> ''Missing source quote: '' @ take 50 (content f) \<in> set (discarded_reasons v)))
       \<and> (f \<in> set (all_facts_src2 e) \<and> length (py_split (source_quote f)) < 3 \<longrightarrow>
            to_validated_src2 f \<notin> set (facts (validate_facts_src2 e))
            \<and> (''Vague source quote: '' @ take 50 (content f)
                  \<in> set (discarded_reasons (validate_facts_src2 e))
               \<or> ''Low confidence '' @ fact_type f @ '': '' @ take 50 (content f)
                  \<in> set (discarded_reasons (validate_facts_src2 e))))"
proof (intro conjI impI)
  assume h: "f \<in> set (all_facts e) \<and> length (source_quote f) < 5"
  let ?v = "\<lparr>facts = map to_validated (filter (\<lambda>f. fst (validate_single_fact f)) (all_facts e)),
          discarded_count = length (filter (\<lambda>f. \<not> fst (validate_single_fact f)) (all_facts e)),
          discarded_reasons = map (\<lambda>f. the (snd (validate_single_fact f)))
             (filter (\<lambda>f. \<not> fst (validate_single_fact f)) (all_facts e))\<rparr>"
  have run: "validate_facts skills e = Inr ?v"
    using assms by (rule validate_facts_eq [of skills t e])
  have absent: "to_validated f \<notin> set (facts ?v)"
  proof
    assume "to_validated f \<in> set (facts ?v)"
    then obtain g where g: "fst (validate_single_fact g)" "to_validated g = to_validated f"
      by auto
    from g(2) have "source_quote g = source_quote f"
      by (metis to_validated_sel(2))
    with accepted_quote [OF g(1)] h show False by simp
  qed
  have "''Missing source quote: '' @ take 50 (content f) \<in> set (discarded_reasons ?v)"
    using h reason_in_ledger [of f "all_facts e", OF _ short_reason] by simp
  with run absent
  show "\<exists>v. validate_facts skills e = Inr v \<and> to_validated f \<notin> set (facts v)
       \<and> ''Missing source quote: '' @ take 50 (content f) \<in> set (discarded_reasons v)"
    by blast
next
  assume h: "f \<in> set (all_facts_src2 e) \<and> length (py_split (source_quote f)) < 3"
  show "to_validated_src2 f \<notin> set (facts (validate_facts_src2 e))"
  proof
    assume "to_validated_src2 f \<in> set (facts (validate_facts_src2 e))"
    then obtain g where g: "rejection_src2 g = None" "to_validated_src2 g = to_validated_src2 f"
      by (auto simp add: validate_facts_src2_eq)
    from g(2) have "source_quote g = source_quote f"
      by (metis to_validated_src2_sel(2))
    with accepted_src2_words [OF g(1)] h show False by simp
  qed
next
  assume h: "f \<in> set (all_facts_src2 e) \<and> length (py_split (source_quote f)) < 3"
  then have f: "f \<in> set (all_facts_src2 e)" and w: "length (py_split (source_quote f)) < 3"
    by simp_all
  from short_reason_src2 [OF w]
  show "''Vague source quote: '' @ take 50 (content f)
                  \<in> set (discarded_reasons (validate_facts_src2 e))
               \<or> ''Low confidence '' @ fact_type f @ '': '' @ take 50 (content f)
                  \<in> set (discarded_reasons (validate_facts_src2 e))"
  proof
    assume "rejection_src2 f = Some (''Vague source quote: '' @ take 50 (content f))"
    from ledger_src2 [OF f this] show ?thesis by (rule disjI1)
  next
    assume "rejection_src2 f
       = Some (''Low confidence '' @ fact_type f @ '': '' @ take 50 (content f))"
    from ledger_src2 [OF f this] show ?thesis by (rule disjI2)
  qed
qed

text \<open>
  The theorem at a metric whose source quote is the single word \<open>ok\<close>.
\<close>

theorem short_quote_discarded_witness:
  "(let f = \<lparr>fact_type = ''metric'', content = ''Budget set'', source_quote = ''ok'',
               confidence = ''high'', fact_context = None\<rparr>;
        e = \<lparr>decisions = [], action_items = [], open_questions = [], deadlines = [],
               metrics = [f]\<rparr>
    in f \<in> set (all_facts e) \<and> length (source_quote f) < 5
       \<and> f \<in> set (all_facts_src2 e) \<and> length (py_split (source_quote f)) < 3
       \<and> (\<exists>v. validate_facts [''VALIDATE_FACTS'' \<mapsto> ''rules''] e = Inr v
               \<and> to_validated f \<notin> set (facts v)
               \<and> ''Missing source quote: '' @ take 50 (content f) \<in> set (discarded_reasons v))
       \<and> to_validated_src2 f \<notin> set (facts (validate_facts_src2 e)))"
proof -
  let ?f = "\<lparr>fact_type = ''metric'', content = ''Budget set'', source_quote = ''ok'',
               confidence = ''high'', fact_context = None\<rparr>"
  let ?e = "\<lparr>decisions = [], action_items = [], open_questions = [], deadlines = [],
               metrics = [?f]\<rparr>"
  have sk: "[''VALIDATE_FACTS'' \<mapsto> ''rules''] ''VALIDATE_FACTS'' = Some ''rules''"
    by simp
  have h1: "?f \<in> set (all_facts ?e) \<and> length (source_quote ?f) < 5"
    by (simp add: all_facts_def)
  have h2: "?f \<in> set (all_facts_src2 ?e) \<and> length (py_split (source_quote ?f)) < 3"
    by (simp add: all_facts_src2_def py_split_def py_isspace_def)
  from short_quote_discarded [of "[''VALIDATE_FACTS'' \<mapsto> ''rules'']" "''rules''" ?f ?e, OF sk] h1 h2
  show ?thesis unfolding Let_def by blast
qed

text \<open>
  Claim C3 as stated fails on the validator of \<open>src3\<close>: a decision quoted by the two
  words \<open>hello world\<close> (eleven characters) is validated.
\<close>

theorem short_quote_counterexample:
  "validate_facts [''VALIDATE_FACTS'' \<mapsto> ''rules'']
     \<lparr>decisions = [\<lparr>fact_type = ''decision'', content = ''Ship v2'',
          source_quote = ''hello world'', confidence = ''high'', fact_context = None\<rparr>],
      action_items = [], open_questions = [], deadlines = [], metrics = []\<rparr>
   = Inr \<lparr>facts = [\<lparr>fact_type = ''decision'', content = ''Ship v2'',
          source_quote = ''hello world'', confidence = ''high'', is_valid = True,
          validation_notes = None\<rparr>],
        discarded_count = 0, discarded_reasons = []\<rparr>
   \<and> length (py_split ''hello world'') = 2"
  by code_simp

text \<open>
  Claim C6, as the code has it. Every validated fact of category \<open>action_item\<close> has a
  source quote that, lowered, contains a commitment marker. An action item without a marker
  is never validated; its recorded reason is \<open>No clear commitment: \<close> followed by the
  first 50 characters of its content whenever no earlier rule has rejected it (in \<open>src3\<close>:
  the quote has at least 5 characters and no conditional pattern occurs; in \<open>src2\<close>: the
  confidence is not low, the quote has at least 3 words and the content is not generic
  unless the confidence is high). Both validators are covered, each with its own markers.
\<close>

theorem action_item_commitment:
  assumes "skills ''VALIDATE_FACTS'' = Some t"
  shows "(\<exists>v. validate_facts skills e = Inr v
            \<and> (\<forall>vf \<in> set (facts v). fact_type vf = ''action_item''
                   \<longrightarrow> has_commitment (lower (source_quote vf)))
            \<and> (\<forall>f \<in> set (all_facts e).
                  fact_type f = ''action_item'' \<and> \<not> has_commitment (lower (source_quote f))
                  \<longrightarrow> to_validated f \<notin> set (facts v)
                      \<and> (5 \<le> length (source_quote f)
                           \<and> \<not> has_conditional (lower (content f)) (lower (source_quote f))
                          \<longrightarrow> ''No clear commitment: '' @ take 50 (content f)
                                 \<in> set (discarded_reasons v))))
       \<and> (\<forall>vf \<in> set (facts (validate_facts_src2 e)). fact_type vf = ''action_item''
              \<longrightarrow> has_commitment_src2 (lower (source_quote vf)))
       \<and> (\<forall>f \<in> set (all_facts_src2 e).
              fact_type f = ''action_item'' \<and> \<not> has_commitment_src2 (lower (source_quote f))
              \<longrightarrow> to_validated_src2 f \<notin> set (facts (validate_facts_src2 e))
                  \<and> (confidence f \<noteq> ''low'' \<and> 3 \<le> length (py_split (source_quote f))
                       \<and> (is_generic f \<longrightarrow> confidence f = ''high'')
                      \<longrightarrow> ''No clear commitment: '' @ take 50 (content f)
                             \<in> set (discarded_reasons (validate_facts_src2 e))))"
proof (intro conjI)
  let ?v = "\<lparr>facts = map to_validated (filter (\<lambda>f. fst (validate_single_fact f)) (all_facts e)),
          discarded_count = length (filter (\<lambda>f. \<not> fst (validate_single_fact f)) (all_facts e)),
          discarded_reasons = map (\<lambda>f. the (snd (validate_single_fact f)))
             (filter (\<lambda>f. \<not> fst (validate_single_fact f)) (all_facts e))\<rparr>"
  have run: "validate_facts skills e = Inr ?v"
    using assms by (rule validate_facts_eq [of skills t e])
  have kept: "\<forall>vf \<in> set (facts ?v). fact_type vf = ''action_item''
                   \<longrightarrow> has_commitment (lower (source_quote vf))"
    using accepted_commitment by auto
  have dropped: "\<forall>f \<in> set (all_facts e).
                  fact_type f = ''action_item'' \<and> \<not> has_commitment (lower (source_quote f))
                  \<longrightarrow> to_validated f \<notin> set (facts ?v)
                      \<and> (5 \<le> length (source_quote f)
                           \<and> \<not> has_conditional (lower (content f)) (lower (source_quote f))
                          \<longrightarrow> ''No clear commitment: '' @ take 50 (content f)
                                 \<in> set (discarded_reasons ?v))"
  proof (intro ballI impI conjI)
    fix f
    assume f: "f \<in> set (all_facts e)"
      and a: "fact_type f = ''action_item'' \<and> \<not> has_commitment (lower (source_quote f))"
    show "to_validated f \<notin> set (facts ?v)"
    proof
      assume "to_validated f \<in> set (facts ?v)"
      then obtain g where g: "fst (validate_single_fact g)" "to_validated g = to_validated f"
        by auto
      from g(2) have sq: "source_quote g = source_quote f"
        by (metis to_validated_sel(2))
      from g(2) have "fact_type g = fact_type f"
        by (metis to_validated_sel(1))
      with sq accepted_commitment [OF g(1)] a show False by simp
    qed
    assume p: "5 \<le> length (source_quote f)
       \<and> \<not> has_conditional (lower (content f)) (lower (source_quote f))"
    with a have r: "validate_single_fact f
        = (False, Some (''No clear commitment: '' @ take 50 (content f)))"
      by (auto simp add: validate_single_fact_def Let_def)
    from reason_in_ledger [OF f r]
    show "''No clear commitment: '' @ take 50 (content f) \<in> set (discarded_reasons ?v)"
      by simp
  qed
  from run kept dropped
  show "\<exists>v. validate_facts skills e = Inr v
            \<and> (\<forall>vf \<in> set (facts v). fact_type vf = ''action_item''
                   \<longrightarrow> has_commitment (lower (source_quote vf)))
            \<and> (\<forall>f \<in> set (all_facts e).
                  fact_type f = ''action_item'' \<and> \<not> has_commitment (lower (source_quote f))
                  \<longrightarrow> to_validated f \<notin> set (facts v)
                      \<and> (5 \<le> length (source_quote f)
                           \<and> \<not> has_conditional (lower (content f)) (lower (source_quote f))
                          \<longrightarrow> ''No clear commitment: '' @ take 50 (content f)
                                 \<in> set (discarded_reasons v)))"
    by blast
next
  show "\<forall>vf \<in> set (facts (validate_facts_src2 e)). fact_type vf = ''action_item''
              \<longrightarrow> has_commitment_src2 (lower (source_quote vf))"
    using accepted_src2_commitment by (auto simp add: validate_facts_src2_eq)
next
  show "\<forall>f \<in> set (all_facts_src2 e).
              fact_type f = ''action_item'' \<and> \<not> has_commitment_src2 (lower (source_quote f))
              \<longrightarrow> to_validated_src2 f \<notin> set (facts (validate_facts_src2 e))
                  \<and> (confidence f \<noteq> ''low'' \<and> 3 \<le> length (py_split (source_quote f))
                       \<and> (is_generic f \<longrightarrow> confidence f = ''high'')
                      \<longrightarrow> ''No clear commitment: '' @ take 50 (content f)
                             \<in> set (discarded_reasons (validate_facts_src2 e)))"
  proof (intro ballI impI conjI)
    fix f
    assume f: "f \<in> set (all_facts_src2 e)"
      and a: "fact_type f = ''action_item'' \<and> \<not> has_commitment_src2 (lower (source_quote f))"
    show "to_validated_src2 f \<notin> set (facts (validate_facts_src2 e))"
    proof
      assume "to_validated_src2 f \<in> set (facts (validate_facts_src2 e))"
      then obtain g where g: "rejection_src2 g = None" "to_validated_src2 g = to_validated_src2 f"
        by (auto simp add: validate_facts_src2_eq)
      from g(2) have sq: "source_quote g = source_quote f"
        by (metis to_validated_src2_sel(2))
      from g(2) have "fact_type g = fact_type f"
        by (metis to_validated_src2_sel(1))
      with sq accepted_src2_commitment [OF g(1)] a show False by simp
    qed
    assume p: "confidence f \<noteq> ''low'' \<and> 3 \<le> length (py_split (source_quote f))
                       \<and> (is_generic f \<longrightarrow> confidence f = ''high'')"
    with a have r: "rejection_src2 f = Some (''No clear commitment: '' @ take 50 (content f))"
      by (auto simp add: rejection_src2_def)
    from ledger_src2 [OF f r]
    show "''No clear commitment: '' @ take 50 (content f)
        \<in> set (discarded_reasons (validate_facts_src2 e))" .
  qed
qed

text \<open>
  Claim C6 as stated fails on the reason, for a fact that the rules of the specification
  leave to the commitment rule. An action item of high confidence, quoted by the five words
  \<open>the launch could be late\<close>, holds no marker; the validator of \<open>src3\<close> tests the
  conditional patterns before the commitment, and the ledger holds
  \<open>Conditional statement: Delay the launch\<close>, where that of \<open>src2\<close> holds
  \<open>No clear commitment: Delay the launch\<close>.
\<close>

theorem action_item_commitment_counterexample:
  "validate_facts [''VALIDATE_FACTS'' \<mapsto> ''rules'']
     \<lparr>decisions = [],
      action_items = [\<lparr>fact_type = ''action_item'', content = ''Delay the launch'',
          source_quote = ''the launch could be late'', confidence = ''high'',
          fact_context = None\<rparr>],
      open_questions = [], deadlines = [], metrics = []\<rparr>
   = Inr \<lparr>facts = [], discarded_count = 1,
          discarded_reasons = [''Conditional statement: Delay the launch'']\<rparr>
   \<and> \<not> has_commitment (lower ''the launch could be late'')
   \<and> length (py_split ''the launch could be late'') = 5
   \<and> discarded_reasons (validate_facts_src2
         \<lparr>decisions = [],
          action_items = [\<lparr>fact_type = ''action_item'', content = ''Delay the launch'',
              source_quote = ''the launch could be late'', confidence = ''high'',
              fact_context = None\<rparr>],
          open_questions = [], deadlines = [], metrics = []\<rparr>)
       = [''No clear commitment: Delay the launch'']"
  by code_simp

text \<open>
  The theorem at an action item quoted by \<open>the report is late today\<close>, which holds no
  marker of either validator.
\<close>

theorem action_item_commitment_witness:
  "(let f = \<lparr>fact_type = ''action_item'', content = ''Chase the report'',
               source_quote = ''the report is late today'', confidence = ''high'',
               fact_context = None\<rparr>;
        e = \<lparr>decisions = [], action_items = [f], open_questions = [], deadlines = [],
               metrics = []\<rparr>
    in f \<in> set (all_facts e) \<and> f \<in> set (all_facts_src2 e)
       \<and> fact_type f = ''action_item''
       \<and> \<not> has_commitment (lower (source_quote f))
       \<and> \<not> has_commitment_src2 (lower (source_quote f))
       \<and> (\<exists>v. validate_facts [''VALIDATE_FACTS'' \<mapsto> ''rules''] e = Inr v
               \<and> to_validated f \<notin> set (facts v)
               \<and> ''No clear commitment: '' @ take 50 (content f) \<in> set (discarded_reasons v))
       \<and> to_validated_src2 f \<notin> set (facts (validate_facts_src2 e))
       \<and> ''No clear commitment: '' @ take 50 (content f)
            \<in> set (discarded_reasons (validate_facts_src2 e)))"
proof -
  let ?f = "\<lparr>fact_type = ''action_item'', content = ''Chase the report'',
               source_quote = ''the report is late today'', confidence = ''high'',
               fact_context = None\<rparr>"
  let ?e = "\<lparr>decisions = [], action_items = [?f], open_questions = [], deadlines = [],
               metrics = []\<rparr>"
  have sk: "[''VALIDATE_FACTS'' \<mapsto> ''rules''] ''VALIDATE_FACTS'' = Some ''rules''"
    by simp
  have m: "?f \<in> set (all_facts ?e)" "?f \<in> set (all_facts_src2 ?e)"
    by (simp_all add: all_facts_def all_facts_src2_def)
  have a: "fact_type ?f = ''action_item''"
    by simp
  have n: "\<not> has_commitment (lower (source_quote ?f))"
    by code_simp
  have n2: "\<not> has_commitment_src2 (lower (source_quote ?f))"
    by code_simp
  have p: "5 \<le> length (source_quote ?f)
       \<and> \<not> has_conditional (lower (content ?f)) (lower (source_quote ?f))"
    by code_simp
  have p2: "confidence ?f \<noteq> ''low'' \<and> 3 \<le> length (py_split (source_quote ?f))
       \<and> (is_generic ?f \<longrightarrow> confidence ?f = ''high'')"
    by code_simp
  from action_item_commitment [of "[''VALIDATE_FACTS'' \<mapsto> ''rules'']" "''rules''" ?e, OF sk]
    m a n n2 p p2
  show ?thesis unfolding Let_def by blast
qed





section \<open>Properties of the to-do repair and of the compliance check\<close>

lemma fix_common_issues_map:
  "fix_common_issues tds = map (\<lambda>todo. fix_task_like (fix_sentinel todo)) tds"
  by (induction tds) simp_all

lemma without_deadline_sel [simp]:
  "task (without_deadline todo) = task todo"
  "priority (without_deadline todo) = priority todo"
  "source_facts (without_deadline todo) = source_facts todo"
  "deadline (without_deadline todo) = None"
  by (simp_all add: without_deadline_def)

lemma fix_sentinel_keeps:
  "task (fix_sentinel todo) = task todo"
  "priority (fix_sentinel todo) = priority todo"
  "source_facts (fix_sentinel todo) = source_facts todo"
  by (simp_all add: fix_sentinel_def)

lemma fix_task_like_keeps:
  "task (fix_task_like todo) = task todo"
  "priority (fix_task_like todo) = priority todo"
  "source_facts (fix_task_like todo) = source_facts todo"
  by (simp_all add: fix_task_like_def)

lemma fix_sentinel_deadline:
  "deadline (fix_sentinel todo) = None \<or> deadline (fix_sentinel todo) = deadline todo"
  by (simp add: fix_sentinel_def)

lemma fix_task_like_verb:
  assumes "deadline todo = Some d" and "list_ex (\<lambda>verb. contains (lower d) verb) task_verbs"
  shows "deadline (fix_task_like todo) = None"
proof -
  from assms(2) have "d \<noteq> []"
    by (auto simp add: task_verbs_def lower_def)
  with assms show ?thesis
    by (simp add: fix_task_like_def truthy_def)
qed

lemma fix_task_like_None: "deadline todo = None \<Longrightarrow> deadline (fix_task_like todo) = None"
  by (simp add: fix_task_like_def truthy_def)

text \<open>
  Claim C9. In the repair step, a to-do whose deadline is a string that, lowered, contains
  one of the substrings \<open>run\<close>, \<open>send\<close>, \<open>schedule\<close>, \<open>reach\<close>, \<open>upload\<close>,
  \<open>complete\<close>, \<open>review\<close> leaves with the deadline \<open>None\<close> and with its task, priority
  and source facts unchanged; the repaired list has the length of the given one.
\<close>

theorem task_like_deadline_removed:
  assumes "i < length tds" and "deadline (tds ! i) = Some d"
    and "list_ex (\<lambda>verb. contains (lower d) verb) task_verbs"
  shows "length (fix_common_issues tds) = length tds
       \<and> deadline (fix_common_issues tds ! i) = None
       \<and> task (fix_common_issues tds ! i) = task (tds ! i)
       \<and> priority (fix_common_issues tds ! i) = priority (tds ! i)
       \<and> source_facts (fix_common_issues tds ! i) = source_facts (tds ! i)"
proof -
  have n: "fix_common_issues tds ! i = fix_task_like (fix_sentinel (tds ! i))"
    using assms(1) by (simp add: fix_common_issues_map)
  have "deadline (fix_task_like (fix_sentinel (tds ! i))) = None"
    using fix_sentinel_deadline [of "tds ! i"]
  proof
    assume "deadline (fix_sentinel (tds ! i)) = None"
    then show ?thesis by (rule fix_task_like_None)
  next
    assume "deadline (fix_sentinel (tds ! i)) = deadline (tds ! i)"
    with assms(2) have "deadline (fix_sentinel (tds ! i)) = Some d" by simp
    from fix_task_like_verb [OF this assms(3)] show ?thesis .
  qed
  with n show ?thesis
    by (simp add: fix_common_issues_map fix_task_like_keeps fix_sentinel_keeps)
qed

text \<open>
  The theorem at the deadline \<open>before the design Review\<close>, a time expression that mentions
  \<open>review\<close>.
\<close>

theorem task_like_deadline_removed_witness:
  "(let td = \<lparr>source_facts = [''Prepare the slides''], priority = ''High'',
                task = ''Prepare the slides'', deadline = Some ''before the design Review''\<rparr>
    in list_ex (\<lambda>verb. contains (lower ''before the design Review'') verb) task_verbs
       \<and> fix_common_issues [td] ! 0
           = \<lparr>source_facts = [''Prepare the slides''], priority = ''High'',
               task = ''Prepare the slides'', deadline = None\<rparr>)"
proof -
  let ?td = "\<lparr>source_facts = [''Prepare the slides''], priority = ''High'',
                task = ''Prepare the slides'', deadline = Some ''before the design Review''\<rparr>"
  have v: "list_ex (\<lambda>verb. contains (lower ''before the design Review'') verb) task_verbs"
    by code_simp
  have "(0::nat) < length [?td]" and "deadline ([?td] ! 0) = Some ''before the design Review''"
    by simp_all
  from task_like_deadline_removed [OF this v] v
  show ?thesis unfolding Let_def by (auto intro: ToDo.equality)
qed

text \<open>
  Claim C2 at an input where it fails. A bundle whose only artifact is a follow-up email
  with an empty \<open>source_facts\<close> list and a body without brackets passes the compliance
  check of \<open>src3\<close> with no issue: the loop over the emails tests the body for brackets and
  nothing else, while the loops over the action points and the to-dos, and the check of
  \<open>src2\<close>, test \<open>source_facts\<close>.
\<close>

theorem compliance_check_email_unchecked:
  "compliance_check
     (Some \<lparr>summary = ''The team met.'', action_points = [], todos = [],
            follow_up_emails = [\<lparr>source_facts = [], subject = ''Meeting Follow-Up'',
                                  body = ''Thanks all for joining.''\<rparr>],
            total_facts_extracted = 0, total_facts_validated = 0, facts_discarded = 0\<rparr>)
     (Some \<lparr>facts = [], discarded_count = 0, discarded_reasons = []\<rparr>)
   = (True, [])"
  by code_simp

lemma compliance_check_sources:
  assumes "(\<exists>ap \<in> set (action_points out). source_facts ap = [])
         \<or> (\<exists>td \<in> set (todos out). source_facts td = [])"
  shows "fst (compliance_check (Some out) (Some v)) = False"
  using assms by (auto simp add: compliance_check_def Let_def)

section \<open>Properties of the fact extractor\<close>

lemma facts_of_data_set:
  "set (facts_of_data items c fs)
     = set fs \<union> {fct. \<exists>kvs. JObj kvs \<in> set items \<and> fact_of_item kvs c = Inr fct}"
proof (induction items arbitrary: fs)
  case Nil
  then show ?case by simp
next
  case (Cons item rest)
  show ?case
  proof (cases item)
    case (JObj kvs)
    then show ?thesis
      using Cons by (cases "fact_of_item kvs c") auto
  qed (use Cons in auto)
qed


lemma as_str_Some: "as_str v = Some t \<Longrightarrow> v = JStr t"
  by (cases v) (simp_all add: as_str_def)


lemma new_ExtractedFact_type:
  assumes "new_ExtractedFact ft ct sq cf cx = Inr fct"
  shows "ft = JStr (fact_type fct) \<and> fact_type fct \<in> set fact_categories"
proof -
  from assms obtain t where t: "as_str ft = Some t" "fact_type fct = t" "t \<in> set fact_categories"
    by (auto simp add: new_ExtractedFact_def split: option.splits if_splits)
  from as_str_Some [OF t(1)] t(2,3) show ?thesis by simp
qed


text \<open>
  Claim C1, as the code has it. Every fact built from a parsed response comes from an item
  that is an object; its category is one of the five categories; it is the value the item
  carries under \<open>fact_type\<close> when the item carries one, and the category of the
  extraction call when the item has no \<open>fact_type\<close> key.
\<close>

theorem fact_category_from_item:
  assumes "fct \<in> set (facts_of_data items c [])"
  shows "\<exists>kvs. JObj kvs \<in> set items \<and> fact_of_item kvs c = Inr fct
           \<and> fact_type fct \<in> set fact_categories
           \<and> (map_of kvs ''fact_type'' = None \<longrightarrow> fact_type fct = c)
           \<and> (\<forall>v. map_of kvs ''fact_type'' = Some v \<longrightarrow> v = JStr (fact_type fct))"
proof -
  from assms obtain kvs where k: "JObj kvs \<in> set items" and b: "fact_of_item kvs c = Inr fct"
    by (auto simp add: facts_of_data_set)
  from b have ge: "dict_get kvs ''fact_type'' (JStr c) = JStr (fact_type fct)
      \<and> fact_type fct \<in> set fact_categories"
    unfolding fact_of_item_def by (rule new_ExtractedFact_type)
  note g = conjunct1 [OF ge] and e = conjunct2 [OF ge]
  have n: "map_of kvs ''fact_type'' = None \<longrightarrow> fact_type fct = c"
  proof
    assume "map_of kvs ''fact_type'' = None"
    with g show "fact_type fct = c" by (simp add: dict_get_def)
  qed
  have p: "\<forall>v. map_of kvs ''fact_type'' = Some v \<longrightarrow> v = JStr (fact_type fct)"
  proof (intro allI impI)
    fix v
    assume "map_of kvs ''fact_type'' = Some v"
    with g show "v = JStr (fact_type fct)" by (simp add: dict_get_def)
  qed
  show ?thesis
    by (rule exI [of _ kvs]) (intro conjI k b e n p)
qed

text \<open>
  Claim C1 as stated fails: parsed for the category \<open>metric\<close>, an item that names
  itself a \<open>decision\<close> gives a fact of category \<open>decision\<close>.
\<close>

theorem fact_category_counterexample:
  "parse_fact_array
     ''[{\"fact_type\":\"decision\",\"content\":\"Ship v2\",\"source_quote\":\"we decided to ship v2\"}]''
     ''metric''
   = Inr [\<lparr>fact_type = ''decision'', content = ''Ship v2'',
            source_quote = ''we decided to ship v2'', confidence = ''high'',
            fact_context = None\<rparr>]"
  by code_simp


text \<open>
  The theorem at two items parsed for the category \<open>metric\<close>: one names itself a
  \<open>decision\<close>, the other names no category.
\<close>

theorem fact_category_from_item_witness:
  "(let items = [JObj [(''fact_type'', JStr ''decision''), (''content'', JStr ''Ship v2'')],
                 JObj [(''content'', JStr ''12 clients'')]];
        f1 = \<lparr>fact_type = ''decision'', content = ''Ship v2'', source_quote = [],
               confidence = ''high'', fact_context = None\<rparr>;
        f2 = \<lparr>fact_type = ''metric'', content = ''12 clients'', source_quote = [],
               confidence = ''high'', fact_context = None\<rparr>
    in facts_of_data items ''metric'' [] = [f1, f2]
       \<and> (\<exists>kvs. JObj kvs \<in> set items \<and> fact_of_item kvs ''metric'' = Inr f1
              \<and> (\<forall>v. map_of kvs ''fact_type'' = Some v \<longrightarrow> v = JStr ''decision'')))"
proof -
  let ?items = "[JObj [(''fact_type'', JStr ''decision''), (''content'', JStr ''Ship v2'')],
                 JObj [(''content'', JStr ''12 clients'')]]"
  let ?f1 = "\<lparr>fact_type = ''decision'', content = ''Ship v2'', source_quote = [],
               confidence = ''high'', fact_context = None\<rparr>"
  let ?f2 = "\<lparr>fact_type = ''metric'', content = ''12 clients'', source_quote = [],
               confidence = ''high'', fact_context = None\<rparr>"
  have ev: "facts_of_data ?items ''metric'' [] = [?f1, ?f2]"
    by code_simp
  then have "?f1 \<in> set (facts_of_data ?items ''metric'' [])"
    by simp
  from fact_category_from_item [OF this] ev
  show ?thesis unfolding Let_def by auto
qed




text \<open>
  Claim C5. The response made of a fence, \<open>json\<close>, a line break, the array
  \<open>[{"fact_type":"metric","content":"$3.5M raised","source_quote":"we raised $3.5M",},]\<close>,
  a line break and a fence, parsed for the category \<open>metric\<close>, gives exactly one fact,
  with that content, that source quote, the category \<open>metric\<close> and the default
  confidence.
\<close>

theorem recovery_parse_scenario:
  "parse_fact_array
     (fence @ ''json\<newline>[{\"fact_type\":\"metric\",\"content\":\"$3.5M raised\",''
        @ ''\"source_quote\":\"we raised $3.5M\",},]\<newline>'' @ fence)
     ''metric''
   = Inr [\<lparr>fact_type = ''metric'', content = ''$3.5M raised'',
            source_quote = ''we raised $3.5M'', confidence = ''high'',
            fact_context = None\<rparr>]"
  by code_simp

lemma attempts: "[1..<max_retries + 1] = [1, 2, 3]"
  by code_simp

lemma extract_loop_fails:
  assumes "(\<exists>e. llm k p = Inl e) \<or> (\<exists>r e. llm k p = Inr r \<and> parse_fact_array r ftype = Inl e)"
  shows "extract_loop llm p ftype (a # rest) k
       = (if a < max_retries then extract_loop llm p ftype rest (Suc k) else (Some [], Suc k))"
  using assms by (auto split: sum.splits)

lemma extract_loop_returns:
  "\<exists>fs calls'. extract_loop llm p ftype [1, 2, 3] calls = (Some fs, calls')
        \<and> calls < calls' \<and> calls' \<le> calls + 3"
  by (simp add: max_retries_def split: sum.splits)

text \<open>
  Claim C8. \<open>extract_fact_type\<close> always returns a list, after at least one and at most
  three calls of the generator. When each of the three calls raises or returns a response
  on which \<open>parse_fact_array\<close> raises, it returns the empty list after exactly three
  calls; no exception leaves the function.
\<close>

theorem extract_fact_type_degrades:
  "(\<exists>fs calls'. extract_fact_type llm calls transcript ftype skill = (Some fs, calls')
        \<and> calls < calls' \<and> calls' \<le> calls + 3)
 \<and> ((\<forall>k. calls \<le> k \<and> k < calls + 3 \<longrightarrow>
         (\<exists>e. llm k (extract_prompt transcript ftype skill) = Inl e)
       \<or> (\<exists>r e. llm k (extract_prompt transcript ftype skill) = Inr r
                \<and> parse_fact_array r ftype = Inl e))
      \<longrightarrow> extract_fact_type llm calls transcript ftype skill = (Some [], calls + 3))"
proof (intro conjI impI)
  show "\<exists>fs calls'. extract_fact_type llm calls transcript ftype skill = (Some fs, calls')
        \<and> calls < calls' \<and> calls' \<le> calls + 3"
    unfolding extract_fact_type_def attempts by (rule extract_loop_returns)
next
  let ?p = "extract_prompt transcript ftype skill"
  assume a: "\<forall>k. calls \<le> k \<and> k < calls + 3 \<longrightarrow>
         (\<exists>e. llm k ?p = Inl e) \<or> (\<exists>r e. llm k ?p = Inr r \<and> parse_fact_array r ftype = Inl e)"
  have s1: "extract_loop llm ?p ftype [1, 2, 3] calls = extract_loop llm ?p ftype [2, 3] (Suc calls)"
    using a extract_loop_fails [of llm calls ?p ftype 1 "[2, 3]"] by (simp add: max_retries_def)
  have s2: "extract_loop llm ?p ftype [2, 3] (Suc calls)
      = extract_loop llm ?p ftype [3] (Suc (Suc calls))"
    using a extract_loop_fails [of llm "Suc calls" ?p ftype 2 "[3]"] by (simp add: max_retries_def)
  have s3: "extract_loop llm ?p ftype [3] (Suc (Suc calls)) = (Some [], Suc (Suc (Suc calls)))"
    using a extract_loop_fails [of llm "Suc (Suc calls)" ?p ftype 3 "[]"]
    by (simp add: max_retries_def)
  show "extract_fact_type llm calls transcript ftype skill = (Some [], calls + 3)"
    unfolding extract_fact_type_def attempts s1 s2 s3 by simp
qed


text \<open>
  The theorem at a generator that is unreachable at its first call and answers in prose
  afterwards.
\<close>

theorem extract_fact_type_degrades_witness:
  "(let llm = (\<lambda>k p. if k = 0 then Inl (GeneratorError ''connection refused'')
                      else Inr ''Sorry, I cannot help with that.'')
    in (\<forall>k. 0 \<le> k \<and> k < 0 + 3 \<longrightarrow>
          (\<exists>e. llm k (extract_prompt ''Alice: hello'' ''decision'' ''rules'') = Inl e)
        \<or> (\<exists>r e. llm k (extract_prompt ''Alice: hello'' ''decision'' ''rules'') = Inr r
                 \<and> parse_fact_array r ''decision'' = Inl e))
       \<and> extract_fact_type llm 0 ''Alice: hello'' ''decision'' ''rules'' = (Some [], 3))"
proof -
  let ?llm = "\<lambda>(k::nat) (p::string). if k = 0 then Inl (GeneratorError ''connection refused'')
                      else Inr ''Sorry, I cannot help with that.''"
  let ?p = "extract_prompt ''Alice: hello'' ''decision'' ''rules''"
  have p: "parse_fact_array ''Sorry, I cannot help with that.'' ''decision'' = Inl JSONDecodeError"
    by code_simp
  have h: "\<forall>k. 0 \<le> k \<and> k < 0 + 3 \<longrightarrow>
          (\<exists>e. ?llm k ?p = Inl e)
        \<or> (\<exists>r e. ?llm k ?p = Inr r \<and> parse_fact_array r ''decision'' = Inl e)"
    using p by simp
  from extract_fact_type_degrades [of ?llm 0 "''Alice: hello''" "''decision''" "''rules''"] h
  have "extract_fact_type ?llm 0 ''Alice: hello'' ''decision'' ''rules'' = (Some [], 0 + 3)"
    by blast
  with h show ?thesis unfolding Let_def by simp
qed

section \<open>Properties of the to-do generator\<close>

lemma empty_not_sentinel: "lower d \<in> set absent_sentinels \<Longrightarrow> d \<noteq> []"
  by (auto simp add: absent_sentinels_def lower_def)

lemma fix_sentinel_removes:
  assumes "deadline todo = Some d" and "lower d \<in> set absent_sentinels"
  shows "deadline (fix_sentinel todo) = None"
  using assms empty_not_sentinel [OF assms(2)]
  by (simp add: fix_sentinel_def truthy_def)

lemma fix_sentinel_result:
  assumes "deadline (fix_sentinel todo) = Some d"
  shows "lower d \<notin> set absent_sentinels"
proof
  assume s: "lower d \<in> set absent_sentinels"
  from assms have "deadline todo = Some d"
    by (simp add: fix_sentinel_def split: if_splits)
  from fix_sentinel_removes [OF this s] assms show False by simp
qed

lemma fix_task_like_result:
  "deadline (fix_task_like todo) = Some d \<Longrightarrow> deadline todo = Some d"
  by (simp add: fix_task_like_def split: if_splits)

lemma repaired_deadline:
  assumes "td \<in> set (fix_common_issues raw)" and "deadline td = Some d"
  shows "lower d \<notin> set absent_sentinels"
proof -
  from assms(1) obtain todo where "td = fix_task_like (fix_sentinel todo)"
    by (auto simp add: fix_common_issues_map)
  with assms(2) have "deadline (fix_task_like (fix_sentinel todo)) = Some d"
    by simp
  then have "deadline (fix_sentinel todo) = Some d"
    by (rule fix_task_like_result)
  then show ?thesis by (rule fix_sentinel_result)
qed

lemma todos_of_response_repaired:
  assumes "todos_of_response r = Inr tds"
  shows "\<exists>raw. tds = fix_common_issues raw"
  using assms by (auto simp add: todos_of_response_def split: sum.splits)

lemma todos_loop_result:
  assumes "todos_loop llm p atts fb c = (Some tds, c')"
  shows "tds = [] \<or> (\<exists>raw. tds = fix_common_issues raw)"
  using assms
proof (induction atts arbitrary: fb c)
  case Nil
  then show ?case by simp
next
  case (Cons a atts)
  show ?case
  proof (cases "case llm c (with_feedback p fb) of Inl e \<Rightarrow> Inl e
                | Inr response \<Rightarrow> todos_of_response response")
    case (Inl e)
    with Cons.prems Cons.IH show ?thesis
      by (auto split: if_splits)
  next
    case (Inr got)
    then obtain r where "todos_of_response r = Inr got"
      by (auto split: sum.splits)
    then have g: "\<exists>raw. got = fix_common_issues raw"
      by (rule todos_of_response_repaired)
    from Inr Cons.prems Cons.IH g show ?thesis
      by (auto simp add: Let_def split: if_splits)
  qed
qed

lemma todos_loop_returns:
  "\<exists>tds c'. todos_loop llm p [1, 2, 3] fb c = (Some tds, c')"
proof -
  have l3: "\<exists>tds c'. todos_loop llm p [3] fb c = (Some tds, c')" for fb c
    by (simp add: max_retries_def Let_def split: sum.splits)
  have l2: "\<exists>tds c'. todos_loop llm p [2, 3] fb c = (Some tds, c')" for fb c
  proof (cases "case llm c (with_feedback p fb) of Inl e \<Rightarrow> Inl e
                | Inr response \<Rightarrow> todos_of_response response")
    case (Inl e)
    with l3 show ?thesis by (simp add: max_retries_def)
  next
    case (Inr got)
    with l3 show ?thesis by (simp add: max_retries_def Let_def)
  qed
  show ?thesis
  proof (cases "case llm c (with_feedback p fb) of Inl e \<Rightarrow> Inl e
                | Inr response \<Rightarrow> todos_of_response response")
    case (Inl e)
    with l2 show ?thesis by (simp add: max_retries_def)
  next
    case (Inr got)
    with l2 show ?thesis by (simp add: max_retries_def Let_def)
  qed
qed

lemma generate_todos_outcome:
  "generate_todos skills llm calls validated =
     (case skills ''GENERATE_TODOS'' of
        None \<Rightarrow> Inl FileNotFoundError
      | Some skill \<Rightarrow>
          (if filter (\<lambda>f. fact_type f = ''action_item'') (facts validated) = []
           then Inr (Some [], calls)
           else Inr (todos_loop llm
                  (todos_prompt skill
                     (todos_facts_text
                        (filter (\<lambda>f. fact_type f = ''action_item'') (facts validated))
                        (filter (\<lambda>f. fact_type f = ''deadline'') (facts validated))))
                  [1, 2, 3] [] calls)))"
  unfolding generate_todos_def load_skill_def attempts
  by (simp del: todos_loop.simps split: option.splits)

lemma generate_todos_list:
  assumes "generate_todos skills llm calls validated = Inr (res, calls')"
  shows "\<exists>tds. res = Some tds \<and> (tds = [] \<or> (\<exists>raw. tds = fix_common_issues raw))"
proof (cases "skills ''GENERATE_TODOS''")
  case None
  with assms show ?thesis by (simp add: generate_todos_outcome)
next
  case (Some skill)
  let ?af = "filter (\<lambda>f. fact_type f = ''action_item'') (facts validated)"
  let ?df = "filter (\<lambda>f. fact_type f = ''deadline'') (facts validated)"
  let ?p = "todos_prompt skill (todos_facts_text ?af ?df)"
  show ?thesis
  proof (cases "?af = []")
    case True
    with Some assms have "res = Some []" by (auto simp add: generate_todos_outcome)
    then show ?thesis by simp
  next
    case False
    with Some assms have l: "todos_loop llm ?p [1, 2, 3] [] calls = (res, calls')"
      by (simp add: generate_todos_outcome del: todos_loop.simps)
    from todos_loop_returns [of llm ?p "[]" calls] l obtain tds where t: "res = Some tds"
      by auto
    with l have "todos_loop llm ?p [1, 2, 3] [] calls = (Some tds, calls')" by simp
    from todos_loop_result [OF this] t show ?thesis by simp
  qed
qed

text \<open>
  Claim C4. Whenever the to-do generator returns, it returns a list, and no to-do of the
  list has a deadline whose lowered text is one of the sentinels \<open>not specified\<close>,
  \<open>none\<close>, \<open>n/a\<close>, \<open>tbd\<close>, \<open>null\<close>; it does return whenever its skill file
  exists. In the repair step, a to-do that arrives with such a deadline leaves with the
  deadline \<open>None\<close> and with its task, priority and source facts unchanged.
\<close>

theorem todos_never_sentinel_deadline:
  "(\<forall>res calls'. generate_todos skills llm calls validated = Inr (res, calls') \<longrightarrow>
      (\<exists>tds. res = Some tds
         \<and> (\<forall>td \<in> set tds. \<forall>d. deadline td = Some d \<longrightarrow> lower d \<notin> set absent_sentinels)))
 \<and> (skills ''GENERATE_TODOS'' \<noteq> None \<longrightarrow>
      (\<exists>res calls'. generate_todos skills llm calls validated = Inr (res, calls')))
 \<and> (\<forall>i < length raw. \<forall>d.
       deadline (raw ! i) = Some d \<and> lower d \<in> set absent_sentinels \<longrightarrow>
         deadline (fix_common_issues raw ! i) = None
       \<and> task (fix_common_issues raw ! i) = task (raw ! i)
       \<and> priority (fix_common_issues raw ! i) = priority (raw ! i)
       \<and> source_facts (fix_common_issues raw ! i) = source_facts (raw ! i))"
proof (intro conjI allI impI)
  fix res calls'
  assume g: "generate_todos skills llm calls validated = Inr (res, calls')"
  from generate_todos_list [OF g] obtain tds
    where t: "res = Some tds" and r: "tds = [] \<or> (\<exists>raw. tds = fix_common_issues raw)"
    by blast
  have "\<forall>td \<in> set tds. \<forall>d. deadline td = Some d \<longrightarrow> lower d \<notin> set absent_sentinels"
  proof (intro ballI allI impI)
    fix td d
    assume m: "td \<in> set tds" and dl: "deadline td = Some d"
    from r m obtain raw' where "tds = fix_common_issues raw'"
      by auto
    with m have "td \<in> set (fix_common_issues raw')" by simp
    from repaired_deadline [OF this dl] show "lower d \<notin> set absent_sentinels" .
  qed
  with t show "\<exists>tds. res = Some tds
         \<and> (\<forall>td \<in> set tds. \<forall>d. deadline td = Some d \<longrightarrow> lower d \<notin> set absent_sentinels)"
    by (intro exI conjI)
next
  assume "skills ''GENERATE_TODOS'' \<noteq> None"
  then show "\<exists>res calls'. generate_todos skills llm calls validated = Inr (res, calls')"
    by (auto simp add: generate_todos_outcome simp del: todos_loop.simps)
next
  fix i d
  assume i: "i < length raw"
    and h: "deadline (raw ! i) = Some d \<and> lower d \<in> set absent_sentinels"
  have n: "fix_common_issues raw ! i = fix_task_like (fix_sentinel (raw ! i))"
    using i by (simp add: fix_common_issues_map)
  from h have "deadline (fix_sentinel (raw ! i)) = None"
    by (intro fix_sentinel_removes [of "raw ! i" d]) simp_all
  then have "deadline (fix_task_like (fix_sentinel (raw ! i))) = None"
    by (rule fix_task_like_None)
  with n show "deadline (fix_common_issues raw ! i) = None"
    "task (fix_common_issues raw ! i) = task (raw ! i)"
    "priority (fix_common_issues raw ! i) = priority (raw ! i)"
    "source_facts (fix_common_issues raw ! i) = source_facts (raw ! i)"
    by (simp_all add: fix_task_like_keeps fix_sentinel_keeps)
qed

text \<open>
  The theorem at a generator that answers with the deadline \<open>Not Specified\<close>, and at a
  parsed to-do with the deadline \<open>N/A\<close>.
\<close>

theorem todos_never_sentinel_deadline_witness:
  "generate_todos [''GENERATE_TODOS'' \<mapsto> ''rules'']
     (\<lambda>k p. Inr ''[{\"task\": \"Send the report\", \"deadline\": \"Not Specified\"}]'') 0
     \<lparr>facts = [\<lparr>fact_type = ''action_item'', content = ''Send the report'',
                 source_quote = ''I will send the report'', confidence = ''high'',
                 is_valid = True, validation_notes = None\<rparr>],
       discarded_count = 0, discarded_reasons = []\<rparr>
     = Inr (Some [\<lparr>source_facts = [], priority = ''Medium'', task = ''Send the report'',
                    deadline = None\<rparr>], 1)
   \<and> (\<exists>tds. Some [\<lparr>source_facts = [], priority = ''Medium'', task = ''Send the report'',
                       deadline = None\<rparr>] = Some tds
          \<and> (\<forall>td \<in> set tds. \<forall>d. deadline td = Some d \<longrightarrow> lower d \<notin> set absent_sentinels))
   \<and> lower ''N/A'' \<in> set absent_sentinels
   \<and> (deadline (fix_common_issues
          [\<lparr>source_facts = [''Send the report''], priority = ''High'',
            task = ''Send the report'', deadline = Some ''N/A''\<rparr>] ! 0) = None
      \<and> task (fix_common_issues
          [\<lparr>source_facts = [''Send the report''], priority = ''High'',
            task = ''Send the report'', deadline = Some ''N/A''\<rparr>] ! 0)
         = task ([\<lparr>source_facts = [''Send the report''], priority = ''High'',
            task = ''Send the report'', deadline = Some ''N/A''\<rparr>] ! 0)
      \<and> priority (fix_common_issues
          [\<lparr>source_facts = [''Send the report''], priority = ''High'',
            task = ''Send the report'', deadline = Some ''N/A''\<rparr>] ! 0)
         = priority ([\<lparr>source_facts = [''Send the report''], priority = ''High'',
            task = ''Send the report'', deadline = Some ''N/A''\<rparr>] ! 0)
      \<and> source_facts (fix_common_issues
          [\<lparr>source_facts = [''Send the report''], priority = ''High'',
            task = ''Send the report'', deadline = Some ''N/A''\<rparr>] ! 0)
         = source_facts ([\<lparr>source_facts = [''Send the report''], priority = ''High'',
            task = ''Send the report'', deadline = Some ''N/A''\<rparr>] ! 0))"
proof -
  let ?sk = "[''GENERATE_TODOS'' \<mapsto> ''rules'']"
  let ?llm = "\<lambda>(k::nat) (p::string).
     (Inr ''[{\"task\": \"Send the report\", \"deadline\": \"Not Specified\"}]'' :: exn + string)"
  let ?v = "\<lparr>facts = [\<lparr>fact_type = ''action_item'', content = ''Send the report'',
                 source_quote = ''I will send the report'', confidence = ''high'',
                 is_valid = True, validation_notes = None\<rparr>],
       discarded_count = 0, discarded_reasons = []\<rparr>"
  let ?raw = "[\<lparr>source_facts = [''Send the report''], priority = ''High'',
            task = ''Send the report'', deadline = Some ''N/A''\<rparr>]"
  note t = todos_never_sentinel_deadline [of ?sk ?llm 0 ?v ?raw]
  have run: "generate_todos ?sk ?llm 0 ?v
     = Inr (Some [\<lparr>source_facts = [], priority = ''Medium'', task = ''Send the report'',
                    deadline = None\<rparr>], 1)"
    by code_simp
  note c1 = conjunct1 [OF t, rule_format, OF run]
  have s: "lower ''N/A'' \<in> set absent_sentinels"
    by code_simp
  have l: "0 < length ?raw"
    by simp
  have p: "deadline (?raw ! 0) = Some ''N/A'' \<and> lower ''N/A'' \<in> set absent_sentinels"
    using s by simp
  note b = conjunct2 [OF conjunct2 [OF t], rule_format, OF l p]
  show ?thesis
    by (intro conjI run c1 s b [THEN conjunct1] b [THEN conjunct2, THEN conjunct1]
          b [THEN conjunct2, THEN conjunct2, THEN conjunct1]
          b [THEN conjunct2, THEN conjunct2, THEN conjunct2])
qed

section \<open>Properties of the follow-up email generator\<close>

lemma generate_email_outcome:
  "generate_email skills llm calls validated =
     (case skills ''GENERATE_EMAIL'' of
        None \<Rightarrow> Inl FileNotFoundError
      | Some skill \<Rightarrow>
          (if relevant_facts validated = [] then Inr (Some [], calls)
           else Inr (email_loop llm
                  (email_prompt skill (email_facts_text (relevant_facts validated)))
                  (relevant_facts validated) [1, 2, 3] [] calls)))"
  unfolding generate_email_def load_skill_def attempts
  by (simp add: Let_def del: email_loop.simps split: option.splits)

lemma email_loop_last:
  "\<exists>em. email_loop llm p rel [3] fb c = (Some [em], Suc c)"
proof (cases "case llm c (with_feedback p fb) of Inl e \<Rightarrow> Inl e
              | Inr response \<Rightarrow> email_of_response response")
  case (Inl e)
  then show ?thesis by (simp add: max_retries_def)
next
  case (Inr got)
  then show ?thesis by (simp add: max_retries_def Let_def)
qed

lemma email_loop_step:
  assumes "a < max_retries"
    and "\<And>fb' c'. \<exists>em n. email_loop llm p rel rest fb' c' = (Some [em], n)
                        \<and> c' < n \<and> n \<le> c' + length rest"
  shows "\<exists>em n. email_loop llm p rel (a # rest) fb c = (Some [em], n)
                        \<and> c < n \<and> n \<le> c + length (a # rest)"
proof (cases "case llm c (with_feedback p fb) of Inl e \<Rightarrow> Inl e
              | Inr response \<Rightarrow> email_of_response response")
  case (Inl e)
  from assms(2) [of "''JSON parsing error: '' @ exn_str e" "Suc c"]
  obtain em n where "email_loop llm p rel rest (''JSON parsing error: '' @ exn_str e) (Suc c)
       = (Some [em], n)" and "Suc c < n" and "n \<le> Suc c + length rest"
    by blast
  with Inl assms(1) show ?thesis by simp
next
  case (Inr got)
  show ?thesis
  proof (cases "validate_email got = []")
    case True
    with Inr show ?thesis by (simp add: Let_def)
  next
    case False
    from assms(2) [of "join ''\<newline>'' (validate_email got)" "Suc c"]
    obtain em n where "email_loop llm p rel rest (join ''\<newline>'' (validate_email got)) (Suc c)
       = (Some [em], n)" and "Suc c < n" and "n \<le> Suc c + length rest"
      by blast
    with Inr False assms(1) show ?thesis by (simp add: Let_def)
  qed
qed

lemma email_loop_returns:
  "\<exists>em n. email_loop llm p rel [1, 2, 3] fb c = (Some [em], n) \<and> c < n \<and> n \<le> c + 3"
proof -
  have l3: "\<exists>em n. email_loop llm p rel [3] fb' c' = (Some [em], n)
              \<and> c' < n \<and> n \<le> c' + length [3::nat]" for fb' c'
    using email_loop_last [of llm p rel fb' c'] by (auto simp del: email_loop.simps)
  have a2: "(2::nat) < max_retries" and a1: "(1::nat) < max_retries"
    by (simp_all add: max_retries_def)
  have l2: "\<exists>em n. email_loop llm p rel [2, 3] fb' c' = (Some [em], n)
              \<and> c' < n \<and> n \<le> c' + length [2::nat, 3]" for fb' c'
    by (rule email_loop_step [OF a2 l3])
  have "\<exists>em n. email_loop llm p rel [1, 2, 3] fb c = (Some [em], n)
              \<and> c < n \<and> n \<le> c + length [1::nat, 2, 3]"
    by (rule email_loop_step [OF a1 l2])
  then show ?thesis by (auto simp del: email_loop.simps)
qed

lemma email_loop_fails:
  assumes "(\<exists>e. llm c (with_feedback p fb) = Inl e)
         \<or> (\<exists>r e. llm c (with_feedback p fb) = Inr r \<and> email_of_response r = Inl e)"
  shows "\<exists>fb'. email_loop llm p rel (a # rest) fb c
       = (if a < max_retries then email_loop llm p rel rest fb' (Suc c)
          else (Some [fallback_email rel], Suc c))"
  using assms by (auto split: sum.splits)

lemma email_loop_all_fail:
  assumes "\<forall>k fb'. c \<le> k \<and> k < c + 3 \<longrightarrow>
             (\<exists>e. llm k (with_feedback p fb') = Inl e)
           \<or> (\<exists>r e. llm k (with_feedback p fb') = Inr r \<and> email_of_response r = Inl e)"
  shows "email_loop llm p rel [1, 2, 3] fb c = (Some [fallback_email rel], c + 3)"
proof -
  have f: "(\<exists>e. llm k (with_feedback p fb') = Inl e)
         \<or> (\<exists>r e. llm k (with_feedback p fb') = Inr r \<and> email_of_response r = Inl e)"
    if "c \<le> k" and "k < c + 3" for k fb'
    using assms that by blast
  from email_loop_fails [of llm c p fb rel 1 "[2, 3]", OF f]
  obtain fb1 where s1: "email_loop llm p rel [1, 2, 3] fb c
      = email_loop llm p rel [2, 3] fb1 (Suc c)"
    by (auto simp add: max_retries_def simp del: email_loop.simps)
  from email_loop_fails [of llm "Suc c" p fb1 rel 2 "[3]", OF f]
  obtain fb2 where s2: "email_loop llm p rel [2, 3] fb1 (Suc c)
      = email_loop llm p rel [3] fb2 (Suc (Suc c))"
    by (auto simp add: max_retries_def simp del: email_loop.simps)
  from email_loop_fails [of llm "Suc (Suc c)" p fb2 rel 3 "[]", OF f]
  have s3: "email_loop llm p rel [3] fb2 (Suc (Suc c))
      = (Some [fallback_email rel], Suc (Suc (Suc c)))"
    by (auto simp add: max_retries_def simp del: email_loop.simps)
  from s1 s2 s3 show ?thesis by simp
qed

lemma relevant_empty:
  "relevant_facts validated = []
     \<longleftrightarrow> (\<forall>f \<in> set (facts validated).
            fact_type f \<notin> set [''decision'', ''action_item'', ''deadline''])"
  unfolding relevant_facts_def filter_empty_conv by blast

lemma fallback_sources:
  "source_facts (fallback_email rel) = map content (take 5 rel)"
  by (simp add: fallback_email_def Let_def)

text \<open>
  Claim C10. With its skill file loaded, the email stage returns a list of at most one
  email. The list is empty exactly when no validated fact is a decision, an action item
  or a deadline, and then the generator has not been called; otherwise it holds exactly
  one email, after one to three calls. When each of the three calls, whatever the feedback
  in its prompt, raises or returns a response from which no email can be built, the list
  holds the fallback email, whose source facts are the contents of the first five relevant
  facts at most.
\<close>

theorem generate_email_at_most_one:
  assumes "skills ''GENERATE_EMAIL'' = Some skill"
  shows "\<exists>emails calls'.
           generate_email skills llm calls validated = Inr (Some emails, calls')
         \<and> length emails \<le> 1
         \<and> (emails = [] \<longleftrightarrow>
               (\<forall>f \<in> set (facts validated).
                  fact_type f \<notin> set [''decision'', ''action_item'', ''deadline'']))
         \<and> (emails = [] \<longrightarrow> calls' = calls)
         \<and> (emails \<noteq> [] \<longrightarrow> calls < calls' \<and> calls' \<le> calls + 3)
         \<and> (emails \<noteq> []
              \<and> (\<forall>k fb. calls \<le> k \<and> k < calls + 3 \<longrightarrow>
                     (\<exists>e. llm k (with_feedback (email_prompt skill (email_facts_text
                            (relevant_facts validated))) fb) = Inl e)
                   \<or> (\<exists>r e. llm k (with_feedback (email_prompt skill (email_facts_text
                            (relevant_facts validated))) fb) = Inr r
                           \<and> email_of_response r = Inl e))
             \<longrightarrow> emails = [fallback_email (relevant_facts validated)]
                 \<and> calls' = calls + 3
                 \<and> source_facts (fallback_email (relevant_facts validated))
                     = map content (take 5 (relevant_facts validated))
                 \<and> length (source_facts (fallback_email (relevant_facts validated))) \<le> 5)"
proof (cases "relevant_facts validated = []")
  case True
  with assms have g: "generate_email skills llm calls validated = Inr (Some [], calls)"
    by (simp add: generate_email_outcome)
  from True have e: "\<forall>f \<in> set (facts validated).
       fact_type f \<notin> set [''decision'', ''action_item'', ''deadline'']"
    unfolding relevant_empty .
  show ?thesis
    by (rule exI [of _ "[]"], rule exI [of _ calls]) (use g e in simp)
next
  case False
  let ?rel = "relevant_facts validated"
  let ?p = "email_prompt skill (email_facts_text ?rel)"
  from False assms
  have g: "generate_email skills llm calls validated
       = Inr (email_loop llm ?p ?rel [1, 2, 3] [] calls)"
    by (simp add: generate_email_outcome del: email_loop.simps)
  from email_loop_returns [of llm ?p ?rel "[]" calls]
  obtain em n where l: "email_loop llm ?p ?rel [1, 2, 3] [] calls = (Some [em], n)"
    and n: "calls < n" "n \<le> calls + 3"
    by blast
  from False have ne: "\<not> (\<forall>f \<in> set (facts validated).
       fact_type f \<notin> set [''decision'', ''action_item'', ''deadline''])"
    unfolding relevant_empty .
  have fb: "(\<forall>k fb. calls \<le> k \<and> k < calls + 3 \<longrightarrow>
                     (\<exists>e. llm k (with_feedback (email_prompt skill (email_facts_text
                            (relevant_facts validated))) fb) = Inl e)
                   \<or> (\<exists>r e. llm k (with_feedback (email_prompt skill (email_facts_text
                            (relevant_facts validated))) fb) = Inr r
                           \<and> email_of_response r = Inl e))
             \<longrightarrow> [em] = [fallback_email ?rel] \<and> n = calls + 3"
  proof
    assume "\<forall>k fb. calls \<le> k \<and> k < calls + 3 \<longrightarrow>
                     (\<exists>e. llm k (with_feedback ?p fb) = Inl e)
                   \<or> (\<exists>r e. llm k (with_feedback ?p fb) = Inr r
                           \<and> email_of_response r = Inl e)"
    from email_loop_all_fail [OF this, of ?rel "[]"] l
    show "[em] = [fallback_email ?rel] \<and> n = calls + 3" by simp
  qed
  have len: "length (source_facts (fallback_email ?rel)) \<le> 5"
    by (simp add: fallback_sources)
  show ?thesis
    by (rule exI [of _ "[em]"], rule exI [of _ n])
       (use g l n ne fb len in \<open>simp add: fallback_sources\<close>)
qed

text \<open>
  The theorem at one validated action item and a generator that answers in prose at every
  call.
\<close>

theorem generate_email_at_most_one_witness:
  "[''GENERATE_EMAIL'' \<mapsto> ''rules''] ''GENERATE_EMAIL'' = Some ''rules''
   \<and> email_of_response ''I am sorry, no email today.'' = Inl JSONDecodeError
   \<and> generate_email [''GENERATE_EMAIL'' \<mapsto> ''rules'']
        (\<lambda>k p. Inr ''I am sorry, no email today.'') 0
        \<lparr>facts = [\<lparr>fact_type = ''action_item'', content = ''Send the report'',
                    source_quote = ''I will send the report'', confidence = ''high'',
                    is_valid = True, validation_notes = None\<rparr>],
          discarded_count = 0, discarded_reasons = []\<rparr>
       = Inr (Some [fallback_email (relevant_facts
                \<lparr>facts = [\<lparr>fact_type = ''action_item'', content = ''Send the report'',
                    source_quote = ''I will send the report'', confidence = ''high'',
                    is_valid = True, validation_notes = None\<rparr>],
                  discarded_count = 0, discarded_reasons = []\<rparr>)], 0 + 3)"
proof -
  let ?sk = "[''GENERATE_EMAIL'' \<mapsto> ''rules'']"
  let ?llm = "\<lambda>(k::nat) (p::string). (Inr ''I am sorry, no email today.'' :: exn + string)"
  let ?v = "\<lparr>facts = [\<lparr>fact_type = ''action_item'', content = ''Send the report'',
                    source_quote = ''I will send the report'', confidence = ''high'',
                    is_valid = True, validation_notes = None\<rparr>],
          discarded_count = 0, discarded_reasons = []\<rparr>"
  have sk: "?sk ''GENERATE_EMAIL'' = Some ''rules''"
    by simp
  have p: "email_of_response ''I am sorry, no email today.'' = Inl JSONDecodeError"
    by code_simp
  have af: "\<forall>k fb. 0 \<le> k \<and> k < 0 + 3 \<longrightarrow>
                     (\<exists>e. ?llm k (with_feedback (email_prompt ''rules'' (email_facts_text
                            (relevant_facts ?v))) fb) = Inl e)
                   \<or> (\<exists>r e. ?llm k (with_feedback (email_prompt ''rules'' (email_facts_text
                            (relevant_facts ?v))) fb) = Inr r
                           \<and> email_of_response r = Inl e)"
    using p by simp
  have rel: "\<not> (\<forall>f \<in> set (facts ?v).
       fact_type f \<notin> set [''decision'', ''action_item'', ''deadline''])"
    by simp
  from generate_email_at_most_one [of ?sk "''rules''" ?llm 0 ?v, OF sk]
  obtain emails calls'
    where g: "generate_email ?sk ?llm 0 ?v = Inr (Some emails, calls')"
      and e: "emails = [] \<longleftrightarrow> (\<forall>f \<in> set (facts ?v).
                  fact_type f \<notin> set [''decision'', ''action_item'', ''deadline''])"
      and fb: "emails \<noteq> []
              \<and> (\<forall>k fb. 0 \<le> k \<and> k < 0 + 3 \<longrightarrow>
                     (\<exists>e. ?llm k (with_feedback (email_prompt ''rules'' (email_facts_text
                            (relevant_facts ?v))) fb) = Inl e)
                   \<or> (\<exists>r e. ?llm k (with_feedback (email_prompt ''rules'' (email_facts_text
                            (relevant_facts ?v))) fb) = Inr r
                           \<and> email_of_response r = Inl e))
             \<longrightarrow> emails = [fallback_email (relevant_facts ?v)]
                 \<and> calls' = 0 + 3
                 \<and> source_facts (fallback_email (relevant_facts ?v))
                     = map content (take 5 (relevant_facts ?v))
                 \<and> length (source_facts (fallback_email (relevant_facts ?v))) \<le> 5"
    by (elim exE conjE)
  have ne: "emails \<noteq> []"
  proof
    assume "emails = []"
    from rel iffD1 [OF e this] show False by (rule notE)
  qed
  note x = fb [rule_format, OF conjI [OF ne af]]
  note r = conjunct1 [OF x] and c = conjunct1 [OF conjunct2 [OF x]]
  from g r c have "generate_email ?sk ?llm 0 ?v
       = Inr (Some [fallback_email (relevant_facts ?v)], 0 + 3)"
    by (simp only:)
  with sk p show ?thesis by (intro conjI)
qed

end
